theory Spec2Isabelle
  imports Complex_Main "HOL-Library.Log_Nat"
begin

section \<open>JavaScript values\<close>

text \<open>
  The program is JavaScript: its datapoint values, value specifications and stanza ids
  are dynamically typed, and the dispatcher compares them with the loose equality
  \<^verbatim>\<open>==\<close> and converts them with \<^verbatim>\<open>parseInt\<close> and \<^verbatim>\<open>parseFloat\<close>. This section
  embeds the part of the language the two source files use.

  A Number is an IEEE-754 double. A finite double is modelled by the rational it
  denotes; the result of every arithmetic operation and of every conversion from a
  string is rounded to the nearest double, ties to even (\<open>round53\<close>). The two zeros
  are identified: the program never observes the sign of a zero. \<open>PInf\<close> and \<open>NInf\<close> are
  the two infinities.
\<close>

datatype jsnum = NaN | PInf | NInf | Fin rat

definition pow2 :: "int \<Rightarrow> rat" where
  "pow2 k = (if 0 \<le> k then 2 ^ nat k else 1 / 2 ^ nat (- k))"

definition pow10 :: "int \<Rightarrow> rat" where
  "pow10 k = (if 0 \<le> k then 10 ^ nat k else 1 / 10 ^ nat (- k))"

text \<open>\<open>ilog2 a\<close> is the binary exponent of a positive rational: \<open>2^e \<le> a < 2^(e+1)\<close>.\<close>

definition ilog2 :: "rat \<Rightarrow> int" where
  "ilog2 a = (let (p, d) = quotient_of a; k = bitlen p - bitlen d
              in if pow2 k \<le> a then k else k - 1)"

definition round_half_even :: "rat \<Rightarrow> int" where
  "round_half_even x = (let f = \<lfloor>x\<rfloor>; r = x - of_int f
     in if r < 1 / 2 then f else if 1 / 2 < r then f + 1 else if even f then f else f + 1)"

text \<open>
  Rounding to a double: 53 significant bits, the exponent not below that of the
  subnormal numbers, and an overflow to the infinity of the same sign.
\<close>

definition round53 :: "rat \<Rightarrow> jsnum" where
  "round53 q = (if q = 0 then Fin 0 else
     let a = \<bar>q\<bar>; e = max (ilog2 a) (- 1022); u = pow2 (e - 52);
         r = of_int (round_half_even (a / u)) * u
     in if pow2 1024 \<le> r then (if q < 0 then NInf else PInf)
        else Fin (if q < 0 then - r else r))"

fun jneg :: "jsnum \<Rightarrow> jsnum" where
  "jneg NaN = NaN"
| "jneg PInf = NInf"
| "jneg NInf = PInf"
| "jneg (Fin q) = Fin (- q)"

fun jadd :: "jsnum \<Rightarrow> jsnum \<Rightarrow> jsnum" where
  "jadd (Fin a) (Fin b) = round53 (a + b)"
| "jadd NaN _ = NaN"
| "jadd _ NaN = NaN"
| "jadd PInf NInf = NaN"
| "jadd NInf PInf = NaN"
| "jadd PInf _ = PInf"
| "jadd NInf _ = NInf"
| "jadd _ PInf = PInf"
| "jadd _ NInf = NInf"

definition jsub :: "jsnum \<Rightarrow> jsnum \<Rightarrow> jsnum" where
  "jsub a b = jadd a (jneg b)"

fun jsign :: "jsnum \<Rightarrow> int" where
  "jsign NaN = 0"
| "jsign PInf = 1"
| "jsign NInf = - 1"
| "jsign (Fin q) = (if q < 0 then - 1 else if q = 0 then 0 else 1)"

fun jmul :: "jsnum \<Rightarrow> jsnum \<Rightarrow> jsnum" where
  "jmul (Fin a) (Fin b) = round53 (a * b)"
| "jmul NaN _ = NaN"
| "jmul _ NaN = NaN"
| "jmul a b = (if jsign a * jsign b = 0 then NaN
               else if 0 < jsign a * jsign b then PInf else NInf)"

text \<open>Equality of Numbers: \<open>NaN\<close> equals nothing, itself included.\<close>

fun num_eq :: "jsnum \<Rightarrow> jsnum \<Rightarrow> bool" where
  "num_eq (Fin a) (Fin b) = (a = b)"
| "num_eq PInf PInf = True"
| "num_eq NInf NInf = True"
| "num_eq _ _ = False"

subsection \<open>Strings as numbers\<close>

text \<open>
  A string is a list of UTF-16 code units below 256. The white space of the language
  in that range is TAB, LF, VT, FF, CR, SP and NBSP.
\<close>

definition is_ws :: "char \<Rightarrow> bool" where
  "is_ws c = ((of_char c :: int) \<in> set [9, 10, 11, 12, 13, 32, 160])"

definition trim_start :: "string \<Rightarrow> string" where
  "trim_start s = dropWhile is_ws s"

definition trim :: "string \<Rightarrow> string" where
  "trim s = rev (dropWhile is_ws (rev (dropWhile is_ws s)))"

definition digit_of :: "int \<Rightarrow> char \<Rightarrow> int option" where
  "digit_of radix c =
     (let n = (of_char c :: int);
          v = (if 48 \<le> n \<and> n \<le> 57 then Some (n - 48)
               else if 97 \<le> n \<and> n \<le> 122 then Some (n - 87)
               else if 65 \<le> n \<and> n \<le> 90 then Some (n - 55)
               else None)
      in case v of None \<Rightarrow> None | Some d \<Rightarrow> if d < radix then Some d else None)"

definition is_digit :: "int \<Rightarrow> char \<Rightarrow> bool" where
  "is_digit radix c = (digit_of radix c \<noteq> None)"

definition digits_val :: "int \<Rightarrow> string \<Rightarrow> int" where
  "digits_val radix ds =
     foldl (\<lambda>a c. radix * a + (case digit_of radix c of None \<Rightarrow> 0 | Some d \<Rightarrow> d)) 0 ds"

text \<open>The exponent part of a decimal literal: \<^verbatim>\<open>e\<close> or \<^verbatim>\<open>E\<close>, a sign, digits.\<close>

definition exponent_part :: "string \<Rightarrow> (int \<times> string) option" where
  "exponent_part s =
     (case s of
        [] \<Rightarrow> None
      | c # r \<Rightarrow>
          if c = CHR ''e'' \<or> c = CHR ''E'' then
            (let sg = (if r \<noteq> [] \<and> hd r = CHR ''-'' then - 1 else 1);
                 r' = (if r \<noteq> [] \<and> (hd r = CHR ''-'' \<or> hd r = CHR ''+'') then tl r else r);
                 ds = takeWhile (is_digit 10) r'
             in if ds = [] then None
                else Some (sg * digits_val 10 ds, dropWhile (is_digit 10) r'))
          else None)"

text \<open>
  The longest prefix that is a \<^verbatim>\<open>StrUnsignedDecimalLiteral\<close>, with its value and the
  rest of the string: \<^verbatim>\<open>Infinity\<close>, or digits with an optional fraction and exponent.
\<close>

definition unsigned_decimal :: "string \<Rightarrow> (jsnum \<times> string) option" where
  "unsigned_decimal s =
     (if take 8 s = ''Infinity'' then Some (PInf, drop 8 s)
      else
        let ip = takeWhile (is_digit 10) s;
            r1 = dropWhile (is_digit 10) s;
            dot = (r1 \<noteq> [] \<and> hd r1 = CHR ''.'');
            fp = (if dot then takeWhile (is_digit 10) (tl r1) else []);
            r2 = (if dot then dropWhile (is_digit 10) (tl r1) else r1)
        in if ip = [] \<and> fp = [] then None
           else
             let m = of_int (digits_val 10 ip) + of_int (digits_val 10 fp) / 10 ^ length fp
             in case exponent_part r2 of
                  None \<Rightarrow> Some (round53 m, r2)
                | Some (e, r3) \<Rightarrow> Some (round53 (m * pow10 e), r3))"

definition signed_decimal :: "string \<Rightarrow> (jsnum \<times> string) option" where
  "signed_decimal s =
     (if s \<noteq> [] \<and> hd s = CHR ''+'' then unsigned_decimal (tl s)
      else if s \<noteq> [] \<and> hd s = CHR ''-'' then
        map_option (\<lambda>(v, r). (jneg v, r)) (unsigned_decimal (tl s))
      else unsigned_decimal s)"

text \<open>\<^verbatim>\<open>parseFloat\<close> of a string: leading white space is skipped, what follows the literal is ignored.\<close>

definition parseFloat_str :: "string \<Rightarrow> jsnum" where
  "parseFloat_str s = (case signed_decimal (trim_start s) of None \<Rightarrow> NaN | Some (v, r) \<Rightarrow> v)"

definition radix_literal :: "int \<Rightarrow> string \<Rightarrow> jsnum" where
  "radix_literal radix ds =
     (if ds \<noteq> [] \<and> list_all (is_digit radix) ds then round53 (of_int (digits_val radix ds))
      else NaN)"

text \<open>
  \<^verbatim>\<open>ToNumber\<close> of a string, the conversion \<^verbatim>\<open>==\<close> and \<^verbatim>\<open>-\<close> apply: the whole trimmed
  string has to be a literal, the empty string is \<open>0\<close>, and hexadecimal, octal and binary
  integers are read.
\<close>

definition ToNumber_str :: "string \<Rightarrow> jsnum" where
  "ToNumber_str s =
     (let t = trim s
      in if t = [] then Fin 0
         else if take 2 t = ''0x'' \<or> take 2 t = ''0X'' then radix_literal 16 (drop 2 t)
         else if take 2 t = ''0o'' \<or> take 2 t = ''0O'' then radix_literal 8 (drop 2 t)
         else if take 2 t = ''0b'' \<or> take 2 t = ''0B'' then radix_literal 2 (drop 2 t)
         else case signed_decimal t of
                Some (v, []) \<Rightarrow> v
              | _ \<Rightarrow> NaN)"

text \<open>\<^verbatim>\<open>parseInt\<close> of a string with no radix given: base 10, or 16 after \<^verbatim>\<open>0x\<close>.\<close>

definition parseInt_str :: "string \<Rightarrow> jsnum" where
  "parseInt_str s =
     (let t = trim_start s;
          neg = (t \<noteq> [] \<and> hd t = CHR ''-'');
          t1 = (if t \<noteq> [] \<and> (hd t = CHR ''-'' \<or> hd t = CHR ''+'') then tl t else t);
          hex = (take 2 t1 = ''0x'' \<or> take 2 t1 = ''0X'');
          radix = (if hex then 16 else 10);
          t2 = (if hex then drop 2 t1 else t1);
          ds = takeWhile (is_digit radix) t2
      in if ds = [] then NaN
         else let v = round53 (of_int (digits_val radix ds)) in if neg then jneg v else v)"

subsection \<open>Numbers as strings\<close>

text \<open>
  \<^verbatim>\<open>parseInt\<close> and \<^verbatim>\<open>parseFloat\<close> convert their argument to a string first. For a
  Number that string is the shortest decimal that reads back as the same double: with
  significand \<open>s\<close> of \<open>k\<close> digits and \<open>10^(n-1) \<le> s * 10^(n-k) < 10^n\<close>, it is written
  without an exponent when \<open>-5 \<le> n \<le> 21\<close> and as \<^verbatim>\<open>d.ddde+N\<close> otherwise.
\<close>

function dec_len :: "int \<Rightarrow> int" where
  "dec_len n = (if 0 < n then 1 + dec_len (n div 10) else 0)"
  by pat_completeness auto
termination
  by (relation "measure nat") auto

text \<open>\<open>ilog10 a\<close> is the \<open>n\<close> with \<open>10^(n-1) \<le> a < 10^n\<close>, for a positive rational.\<close>

definition ilog10 :: "rat \<Rightarrow> int" where
  "ilog10 a = (let (p, d) = quotient_of a; k = dec_len p - dec_len d
               in if pow10 k \<le> a then k + 1 else k)"

text \<open>
  The significand of \<open>k\<close> digits that reads back as the double \<open>a\<close>, if there is one:
  only the two neighbours of \<open>a\<close> on the grid of \<open>k\<close> digits can, and of two the closer one
  is taken (the even one on a tie).
\<close>

definition shortest_at :: "rat \<Rightarrow> int \<Rightarrow> int \<Rightarrow> int option" where
  "shortest_at a n k =
     (let scale = pow10 (n - k);
          lo = \<lfloor>a / scale\<rfloor>;
          hi = lo + 1;
          oklo = (round53 (of_int lo * scale) = Fin a);
          okhi = (round53 (of_int hi * scale) = Fin a);
          dlo = a - of_int lo * scale;
          dhi = of_int hi * scale - a
      in if oklo \<and> okhi then
           Some (if dlo < dhi then lo else if dhi < dlo then hi else if even lo then lo else hi)
         else if oklo then Some lo
         else if okhi then Some hi
         else None)"

text \<open>The first digit of the shortest decimal of a positive double.\<close>

definition lead_digit :: "rat \<Rightarrow> int" where
  "lead_digit a =
     (let n = ilog10 a
      in case List.map_filter
                (\<lambda>k. map_option (\<lambda>s. if s = 10 ^ nat k then 1 else s div 10 ^ nat (k - 1))
                        (shortest_at a n k))
                [1 .. 17] of
           [] \<Rightarrow> 0
         | d # _ \<Rightarrow> d)"

text \<open>
  The least double that is written without an exponent is the one nearest to \<open>10^-6\<close>,
  which lies below it and is written \<^verbatim>\<open>0.000001\<close>.
\<close>

definition min_decimal :: rat where
  "min_decimal = 4722366482869645 / 2 ^ 72"

text \<open>
  \<^verbatim>\<open>parseInt\<close> of a Number. Written without an exponent, the integer part of the string
  is the integer part of the double. Written with an exponent, \<^verbatim>\<open>parseInt\<close> stops at
  the point or at the \<^verbatim>\<open>e\<close> after the first digit. \<^verbatim>\<open>NaN\<close> and \<^verbatim>\<open>Infinity\<close> have
  no digit.
\<close>

fun parseInt_num :: "jsnum \<Rightarrow> jsnum" where
  "parseInt_num (Fin q) =
     (if q = 0 then Fin 0
      else
        let a = \<bar>q\<bar>;
            v = (if min_decimal \<le> a \<and> a < 10 ^ 21 then \<lfloor>a\<rfloor> else lead_digit a)
        in Fin (of_int (if q < 0 then - v else v)))"
| "parseInt_num _ = NaN"

subsection \<open>Values\<close>

text \<open>
  The values the two files handle: \<^verbatim>\<open>undefined\<close> (what reading an absent key gives),
  Numbers and strings.
\<close>

datatype jsval = JUndefined | JNum jsnum | JStr string

text \<open>The loose equality \<^verbatim>\<open>==\<close>: a string compared with a Number is converted first.\<close>

fun loose_eq :: "jsval \<Rightarrow> jsval \<Rightarrow> bool" where
  "loose_eq JUndefined JUndefined = True"
| "loose_eq (JNum a) (JNum b) = num_eq a b"
| "loose_eq (JStr a) (JStr b) = (a = b)"
| "loose_eq (JNum a) (JStr s) = num_eq a (ToNumber_str s)"
| "loose_eq (JStr s) (JNum b) = num_eq (ToNumber_str s) b"
| "loose_eq _ _ = False"

fun ToNumber :: "jsval \<Rightarrow> jsnum" where
  "ToNumber JUndefined = NaN"
| "ToNumber (JNum n) = n"
| "ToNumber (JStr s) = ToNumber_str s"

text \<open>\<^verbatim>\<open>undefined\<close> is converted to the string \<^verbatim>\<open>undefined\<close>, which holds no digit.\<close>

fun parseInt :: "jsval \<Rightarrow> jsnum" where
  "parseInt JUndefined = NaN"
| "parseInt (JNum n) = parseInt_num n"
| "parseInt (JStr s) = parseInt_str s"

text \<open>The string of a Number reads back as the Number itself.\<close>

fun parseFloat :: "jsval \<Rightarrow> jsnum" where
  "parseFloat JUndefined = NaN"
| "parseFloat (JNum n) = n"
| "parseFloat (JStr s) = parseFloat_str s"

text \<open>\<^verbatim>\<open>s.substr(i)\<close> and \<^verbatim>\<open>s.substr(0, n)\<close> of a string.\<close>

definition substr_from :: "nat \<Rightarrow> string \<Rightarrow> string" where
  "substr_from i s = drop i s"

definition substr_to :: "nat \<Rightarrow> string \<Rightarrow> string" where
  "substr_to n s = take n s"

section \<open>The State Store\<close>

text \<open>
  \<^verbatim>\<open>data.getData('actuators')\<close> is an object keyed by serial number. An actuator has a
  hardware code \<^verbatim>\<open>deviceId\<close>, a display name \<^verbatim>\<open>typeName\<close>, for a scene the back-reference
  \<^verbatim>\<open>serialNumber\<close> (absent otherwise, so \<^verbatim>\<open>undefined\<close> when read), and its channels; a
  channel holds its datapoints. Reading a key that is absent gives \<^verbatim>\<open>undefined\<close>, and
  reading a property of \<^verbatim>\<open>undefined\<close> throws a \<^verbatim>\<open>TypeError\<close>.

  The store is filled by \<^verbatim>\<open>data.js\<close> and \<^verbatim>\<open>sysap-internal.js\<close>, which are not among the two
  files: it is a parameter of every function here, of the shape the data model of the
  specification gives it. The map holds the store's own keys. The store is a plain
  object, so that reading it under a name every object inherits from
  \<^verbatim>\<open>Object.prototype\<close> gives that member, which is truthy and has none of the properties
  of an actuator (\<open>js_member\<close> below, used by \<^verbatim>\<open>parse\<close>).
\<close>

record actuator =
  deviceId :: string
  typeName :: string
  serialNumber :: "string option"
  channels :: "string \<rightharpoonup> (string \<rightharpoonup> jsval)"

type_synonym store = "string \<rightharpoonup> actuator"

datatype failure = TypeError

text \<open>A string or \<^verbatim>\<open>undefined\<close> used as a key or in a concatenation.\<close>

definition key_of :: "string option \<Rightarrow> string" where
  "key_of k = (case k of None \<Rightarrow> ''undefined'' | Some s \<Rightarrow> s)"

text \<open>\<^verbatim>\<open>datapoints[key]\<close>\<close>

definition dp_value :: "(string \<rightharpoonup> jsval) \<Rightarrow> string \<Rightarrow> jsval" where
  "dp_value dps key = (case dps key of None \<Rightarrow> JUndefined | Some v \<Rightarrow> v)"

text \<open>
  \<^verbatim>\<open>d[serialnumber].channels[channel].datapoints[key]\<close>. Under a serial number that is
  not a key of the store the read throws: \<^verbatim>\<open>d[serialnumber]\<close> is \<^verbatim>\<open>undefined\<close>, or it is
  an inherited member, whose \<^verbatim>\<open>channels\<close> is \<^verbatim>\<open>undefined\<close>. So it does under a channel that
  is not a key, or names an inherited member, which has no \<^verbatim>\<open>datapoints\<close>. The
  datapoints read are \<^verbatim>\<open>odp0000\<close>, \<^verbatim>\<open>odp0002\<close>, \<^verbatim>\<open>odp0006\<close>, \<^verbatim>\<open>pm0006\<close> and names that
  start with \<^verbatim>\<open>o\<close>: none is the name of an inherited member.
\<close>

definition read_dp :: "store \<Rightarrow> string option \<Rightarrow> string \<Rightarrow> string \<Rightarrow> failure + jsval" where
  "read_dp d serialnumber channel key =
     (case d (key_of serialnumber) of
        None \<Rightarrow> Inl TypeError
      | Some a \<Rightarrow>
          (case channels a channel of
             None \<Rightarrow> Inl TypeError
           | Some dps \<Rightarrow> Inr (dp_value dps key)))"

section \<open>The dispatcher: \<^verbatim>\<open>set\<close>\<close>

text \<open>
  \<^verbatim>\<open>set(serialnumber, channel, datapoint, value)\<close> resolves the value specification
  against the store and sends one \<^verbatim>\<open>RemoteInterface.setDatapoint\<close> call on the session.
  Its effects are the calls it sends, in order, and the timers it arms with
  \<^verbatim>\<open>setTimeout\<close>: the delay in milliseconds and the deferred call. An exception leaves
  the function before anything is sent. The serial number and the datapoint are strings
  or \<^verbatim>\<open>undefined\<close>, which is \<open>None\<close>; the value is sent as it is, before its conversion to
  the text of the XML element.
\<close>

record rpc_write =
  w_serial :: "string option"
  w_channel :: string
  w_datapoint :: "string option"
  w_value :: jsval

text \<open>The first parameter of the call, \<^verbatim>\<open>serialnumber + '/' + channel + '/' + datapoint\<close>.\<close>

definition rpc_path :: "rpc_write \<Rightarrow> string" where
  "rpc_path w = key_of (w_serial w) @ ''/'' @ w_channel w @ ''/'' @ key_of (w_datapoint w)"

datatype callback = SetCall "string option" string "string option" jsval

record effects =
  sent :: "rpc_write list"
  timers :: "(jsnum \<times> callback) list"

definition send :: "string option \<Rightarrow> string \<Rightarrow> string option \<Rightarrow> jsval \<Rightarrow> effects" where
  "send serialnumber channel datapoint value =
     \<lparr>sent = [\<lparr>w_serial = serialnumber, w_channel = channel,
                w_datapoint = datapoint, w_value = value\<rparr>],
      timers = []\<rparr>"

text \<open>
  The source, without its logging and the construction of the XML element:
  \<^verbatim>\<open>
  var set = function (serialnumber, channel, datapoint, value) {
    var d = data.getData('actuators');
    if (value == 'x') {
      if (d[serialnumber].deviceId == '9004') {
        var current = d[serialnumber].channels[channel].datapoints['odp0006'];
        value = current == 1 ? 0 : 1;
      } else {
        var look = 'o' + datapoint.substr(1);
        var current = d[serialnumber].channels[channel].datapoints[look];
        value = current == 1 ? 0 : 1;
      }
    } else if (typeof value === 'string' && value.substr(0, 2) == 'x-') {
      // odp0000 = 0, 1: not moving; odp0000 = 3: moving down; odp0000 = 2: moving up
      value = value.substr(2);
      if ((d[serialnumber].channels[channel].datapoints['odp0000'] == 2 && value == 0) ||
          (d[serialnumber].channels[channel].datapoints['odp0000'] == 3 && value == 1)) {
        datapoint = 'idp0001';
        value = 1;
      }
    } else if (typeof value === 'string' && value.substr(0, 2) == 'p-') {
      // pm0006: motor delay in ms
      value = value.substr(2);
      setTimeout(function () {
        set(serialnumber, channel, 'idp0001', 1)
      }, 200 + parseInt(d[serialnumber].channels[channel].datapoints['pm0006']));
    } else if (typeof value === 'string' &&
               (value.substr(0, 1) == '-' || value.substr(0, 1) == '+')) {
      var changeValue = parseFloat(value.substr(1)) * (value.substr(0, 1) == '-' ? -1 : 1);
      value = parseFloat(d[serialnumber].channels[channel].datapoints['odp0002'])
                + changeValue - 21;
    }
    var setData = ... .t(serialnumber + '/' + channel + '/' + datapoint) ... .t(value);
    sysap.sysap.send(setData);
  }
  \<close>
\<close>

text \<open>\<^verbatim>\<open>current == 1 ? 0 : 1\<close>\<close>

definition complement :: "jsval \<Rightarrow> jsval" where
  "complement current = (if loose_eq current (JNum (Fin 1)) then JNum (Fin 0) else JNum (Fin 1))"

definition set' :: "store \<Rightarrow> string option \<Rightarrow> string \<Rightarrow> string option \<Rightarrow> jsval
    \<Rightarrow> failure + effects" where
  "set' d serialnumber channel datapoint value =
     (if loose_eq value (JStr ''x'') then
        (case d (key_of serialnumber) of
           None \<Rightarrow> Inl TypeError
         | Some a \<Rightarrow>
             if deviceId a = ''9004'' then
               (case read_dp d serialnumber channel ''odp0006'' of
                  Inl e \<Rightarrow> Inl e
                | Inr current \<Rightarrow> Inr (send serialnumber channel datapoint (complement current)))
             else
               (case datapoint of
                  None \<Rightarrow> Inl TypeError
                | Some dp \<Rightarrow>
                    (case read_dp d serialnumber channel (''o'' @ substr_from 1 dp) of
                       Inl e \<Rightarrow> Inl e
                     | Inr current \<Rightarrow>
                         Inr (send serialnumber channel datapoint (complement current)))))
      else case value of
        JStr s \<Rightarrow>
          if substr_to 2 s = ''x-'' then
            (case read_dp d serialnumber channel ''odp0000'' of
               Inl e \<Rightarrow> Inl e
             | Inr odp \<Rightarrow>
                 if (loose_eq odp (JNum (Fin 2)) \<and> loose_eq (JStr (substr_from 2 s)) (JNum (Fin 0)))
                    \<or> (loose_eq odp (JNum (Fin 3)) \<and> loose_eq (JStr (substr_from 2 s)) (JNum (Fin 1)))
                 then Inr (send serialnumber channel (Some ''idp0001'') (JNum (Fin 1)))
                 else Inr (send serialnumber channel datapoint (JStr (substr_from 2 s))))
          else if substr_to 2 s = ''p-'' then
            (case read_dp d serialnumber channel ''pm0006'' of
               Inl e \<Rightarrow> Inl e
             | Inr pm \<Rightarrow>
                 Inr ((send serialnumber channel datapoint (JStr (substr_from 2 s)))
                       \<lparr>timers := [(jadd (Fin 200) (parseInt pm),
                                    SetCall serialnumber channel (Some ''idp0001'') (JNum (Fin 1)))]\<rparr>))
          else if substr_to 1 s = ''-'' \<or> substr_to 1 s = ''+'' then
            (let changeValue = jmul (parseFloat_str (substr_from 1 s))
                                    (Fin (if substr_to 1 s = ''-'' then - 1 else 1))
             in case read_dp d serialnumber channel ''odp0002'' of
                  Inl e \<Rightarrow> Inl e
                | Inr odp \<Rightarrow>
                    Inr (send serialnumber channel datapoint
                           (JNum (jsub (jadd (parseFloat odp) changeValue) (Fin 21)))))
          else Inr (send serialnumber channel datapoint value)
      | _ \<Rightarrow> Inr (send serialnumber channel datapoint value))"

text \<open>What a timer does when it fires: the deferred call, on the store as it is then.\<close>

fun fire :: "store \<Rightarrow> callback \<Rightarrow> failure + effects" where
  "fire d (SetCall serialnumber channel datapoint value) =
     set' d serialnumber channel datapoint value"

section \<open>The Command Table and \<^verbatim>\<open>parse\<close>\<close>

text \<open>
  The table is an object literal, so reading \<^verbatim>\<open>commands[type]\<close> finds an entry of the
  table, or a member every object inherits from \<^verbatim>\<open>Object.prototype\<close>, or nothing
  (\<^verbatim>\<open>undefined\<close>). The inherited members are functions (and \<^verbatim>\<open>__proto__\<close> the prototype
  itself): they are truthy, have no property \<^verbatim>\<open>actions\<close> and no enumerable key.
\<close>

definition object_prototype_keys :: "string list" where
  "object_prototype_keys =
     [''constructor'', ''hasOwnProperty'', ''isPrototypeOf'', ''propertyIsEnumerable'',
      ''toLocaleString'', ''toString'', ''valueOf'', ''__proto__'',
      ''__defineGetter__'', ''__defineSetter__'', ''__lookupGetter__'', ''__lookupSetter__'']"

datatype 'a lookup = Own 'a | Inherited | Absent

text \<open>\<^verbatim>\<open>obj[k]\<close> for a plain object with the own keys of the map \<open>obj\<close>.\<close>

definition js_member :: "(string \<rightharpoonup> 'a) \<Rightarrow> string \<Rightarrow> 'a lookup" where
  "js_member obj k =
     (case obj k of
        Some v \<Rightarrow> Own v
      | None \<Rightarrow> if k \<in> set object_prototype_keys then Inherited else Absent)"

definition js_get :: "(string \<times> 'a) list \<Rightarrow> string \<Rightarrow> 'a lookup" where
  "js_get obj k = js_member (map_of obj) k"

text \<open>
  An entry of the table: its actions, each an object with one key (the datapoint) and the
  value specification under it, and the hardware codes it accepts, if it lists any.
\<close>

record command =
  actions :: "(string \<times> (string \<times> jsval)) list"
  deviceIds :: "string list option"

definition lit :: "int \<Rightarrow> jsval" where
  "lit n = JNum (Fin (of_int n))"

text \<open>
  The table is built on each call, from the caller's \<^verbatim>\<open>value\<close>: the dimmer's \<^verbatim>\<open>set\<close>
  passes it on and the thermostat's \<^verbatim>\<open>set\<close> holds \<^verbatim>\<open>value - 21\<close>.
\<close>

definition commands :: "jsval \<Rightarrow> (string \<times> command) list" where
  "commands value =
     [(''switch'',
        \<lparr>actions = [(''on'', (''idp0000'', lit 1)),
                    (''off'', (''idp0000'', lit 0)),
                    (''toggle'', (''idp0000'', JStr ''x''))],
         deviceIds = Some [''B002'', ''100E'']\<rparr>),
      (''switchgroup'',
        \<lparr>actions = [(''on'', (''odp0002'', lit 1)),
                    (''off'', (''odp0002'', lit 0)),
                    (''toggle'', (''odp0002'', JStr ''x''))],
         deviceIds = None\<rparr>),
      (''dimmer'',
        \<lparr>actions = [(''on'', (''idp0000'', lit 1)),
                    (''off'', (''idp0000'', lit 0)),
                    (''toggle'', (''idp0000'', JStr ''x'')),
                    (''up'', (''idp0001'', lit 9)),
                    (''down'', (''idp0001'', lit 1)),
                    (''stop'', (''idp0001'', lit 0)),
                    (''set'', (''idp0002'', value))],
         deviceIds = Some [''101C'']\<rparr>),
      (''shutter'',
        \<lparr>actions = [(''up'', (''idp0000'', lit 0)),
                    (''down'', (''idp0000'', lit 1)),
                    (''toggle-up'', (''idp0000'', JStr ''x-0'')),
                    (''toggle-down'', (''idp0000'', JStr ''x-1'')),
                    (''pulse-up'', (''idp0000'', JStr ''p-0'')),
                    (''pulse-down'', (''idp0000'', JStr ''p-1'')),
                    (''stop'', (''idp0001'', lit 1))],
         deviceIds = Some [''B001'', ''1013'']\<rparr>),
      (''shuttergroup'',
        \<lparr>actions = [(''up'', (''odp0003'', lit 0)),
                    (''down'', (''odp0003'', lit 1)),
                    (''stop'', (''odp0004'', lit 1))],
         deviceIds = None\<rparr>),
      (''scene'',
        \<lparr>actions = [(''set'', (''odp0000'', lit 1))],
         deviceIds = None\<rparr>),
      (''thermostat'',
        \<lparr>actions = [(''toggle'', (''idp000B'', JStr ''x'')),
                    (''set'', (''idp0007'', JNum (jsub (ToNumber value) (Fin 21)))),
                    (''up'', (''idp0007'', JStr ''+0.5'')),
                    (''down'', (''idp0007'', JStr ''-0.5'')),
                    (''on'', (''idp000B'', lit 1)),
                    (''off'', (''idp000B'', lit 0)),
                    (''eco-on'', (''idp0009'', lit 1)),
                    (''eco-off'', (''idp0009'', lit 0))],
         deviceIds = None\<rparr>)]"

text \<open>
  \<^verbatim>\<open>parse\<close> returns a string. A refusal is the error message. After a call of \<^verbatim>\<open>set\<close>
  it is the confirmation, which ends in the value specification converted to a string:
  \<open>Performed p v\<close> stands for \<open>p\<close> followed by the string of \<open>v\<close>.
\<close>

datatype reply = Refused string | Performed string jsval

definition dq :: string where
  "dq = [CHR 0x22]"

definition no_effects :: effects where
  "no_effects = \<lparr>sent = [], timers = []\<rparr>"

definition unknown_command :: "string \<Rightarrow> string" where
  "unknown_command type = ''unknown command: '' @ dq @ type @ dq"

definition unknown_action :: "string \<Rightarrow> string \<Rightarrow> string" where
  "unknown_action action type =
     ''unknown action '' @ dq @ action @ dq @ '' for type '' @ dq @ type @ dq"

definition not_found :: "string \<Rightarrow> string" where
  "not_found serialnumber = ''actuator '' @ dq @ serialnumber @ dq @ '' not found''"

definition not_of_type :: "string \<Rightarrow> string \<Rightarrow> string \<Rightarrow> string" where
  "not_of_type serialnumber name type =
     ''actuator '' @ dq @ serialnumber @ dq @ '' ('' @ name @ '') is not of type '' @ dq @ type @ dq"

definition confirmation :: "string \<Rightarrow> string \<Rightarrow> string option \<Rightarrow> string \<Rightarrow> string
    \<Rightarrow> string option \<Rightarrow> string" where
  "confirmation channel type serialnumber name action datapoint =
     ''set channel '' @ channel @ '' of '' @ type @ '' '' @ key_of serialnumber
       @ '' ('' @ name @ '') to '' @ action @ '': ''
       @ key_of serialnumber @ ''/'' @ channel @ ''/'' @ key_of datapoint @ '': ''"

text \<open>
  The source after the table, without its logging:
  \<^verbatim>\<open>
  var parse = function (type, serialnumber, channel, action, value) {
    if (type == 'blind') {
      type = 'shutter';
    }
    var commands = { ... }
    var actuators = data.getData('actuators');
    if (!commands[type]) {
      return 'unknown command: "' + type + '"';
    }
    if (!commands[type].actions[action]) {
      return 'unknown action "' + action + '" for type "' + type + '"';
    }
    if (!actuators[serialnumber]) {
      return 'actuator "' + serialnumber + '" not found';
    }
    if (commands[type].deviceIds) {
      if (commands[type].deviceIds.indexOf(actuators[serialnumber].deviceId) == -1) {
        return 'actuator "' + serialnumber + '" (' + actuators[serialnumber].typeName
                 + ') is not of type "' + type + '"';
      }
    }
    var id = serialnumber;
    if (type == 'scene') {
      serialnumber = actuators[serialnumber].serialNumber;
    }
    var datapoint = Object.keys(commands[type].actions[action])[0];
    var value = commands[type].actions[action][datapoint];
    set(serialnumber, channel, datapoint, value);
    return 'set channel ' + channel + ' of ' + type + ' ' + serialnumber
             + ' (' + actuators[id].typeName + ') to ' + action + ': '
             + serialnumber + '/' + channel + '/' + datapoint + ': ' + value;
  }
  \<close>
  For an action that is a member inherited from \<^verbatim>\<open>Object.prototype\<close>, \<^verbatim>\<open>Object.keys\<close>
  gives the empty list, so that \<^verbatim>\<open>datapoint\<close> and \<^verbatim>\<open>value\<close> are \<^verbatim>\<open>undefined\<close>. For a
  serial number that names such a member, \<^verbatim>\<open>actuators[serialnumber]\<close> is truthy and its
  \<^verbatim>\<open>deviceId\<close>, \<^verbatim>\<open>typeName\<close> and \<^verbatim>\<open>serialNumber\<close> are \<^verbatim>\<open>undefined\<close>: \<^verbatim>\<open>indexOf\<close> does
  not find the code, and the name is written \<^verbatim>\<open>undefined\<close>.
\<close>

definition parse :: "store \<Rightarrow> string \<Rightarrow> string \<Rightarrow> string \<Rightarrow> string \<Rightarrow> jsval
    \<Rightarrow> failure + reply \<times> effects" where
  "parse actuators type0 serialnumber channel action value =
     (let type = (if type0 = ''blind'' then ''shutter'' else type0)
      in case js_get (commands value) type of
           Absent \<Rightarrow> Inr (Refused (unknown_command type), no_effects)
         | Inherited \<Rightarrow> Inl TypeError
         | Own cmd \<Rightarrow>
             (case js_get (actions cmd) action of
                Absent \<Rightarrow> Inr (Refused (unknown_action action type), no_effects)
              | found \<Rightarrow>
                  (case js_member actuators serialnumber of
                     Absent \<Rightarrow> Inr (Refused (not_found serialnumber), no_effects)
                   | actuator \<Rightarrow>
                       let device = (case actuator of Own a \<Rightarrow> Some (deviceId a) | _ \<Rightarrow> None);
                           name = (case actuator of Own a \<Rightarrow> typeName a | _ \<Rightarrow> ''undefined'');
                           back = (case actuator of Own a \<Rightarrow> serialNumber a | _ \<Rightarrow> None)
                       in
                         if (case deviceIds cmd of
                               None \<Rightarrow> False
                             | Some ids \<Rightarrow>
                                 (case device of None \<Rightarrow> True | Some code \<Rightarrow> code \<notin> set ids))
                         then Inr (Refused (not_of_type serialnumber name type), no_effects)
                         else
                           let target = (if type = ''scene'' then back else Some serialnumber);
                               datapoint = (case found of Own (dp, spec) \<Rightarrow> Some dp | _ \<Rightarrow> None);
                               spec = (case found of Own (dp, spec) \<Rightarrow> spec | _ \<Rightarrow> JUndefined)
                           in case set' actuators target channel datapoint spec of
                                Inl e \<Rightarrow> Inl e
                              | Inr eff \<Rightarrow>
                                  Inr (Performed
                                         (confirmation channel type target name action datapoint)
                                         spec,
                                       eff))))"

section \<open>The session: \<^verbatim>\<open>sysap.js\<close>\<close>

text \<open>
  The module keeps three variables: the ping counter \<^verbatim>\<open>count\<close>, the id of the last ping
  \<^verbatim>\<open>lastping\<close> (\<^verbatim>\<open>undefined\<close> until the first one) and the flag \<^verbatim>\<open>subscribed\<close>.
\<close>

record session =
  count :: jsnum
  lastping :: jsval
  subscribed :: bool

definition initial :: session where
  "initial = \<lparr>count = Fin 0, lastping = JUndefined, subscribed = False\<rparr>"

text \<open>
  What the handler reads of a stanza: its name, the attributes \<^verbatim>\<open>type\<close>, \<^verbatim>\<open>from\<close> and
  \<^verbatim>\<open>id\<close> (strings, or absent), the \<^verbatim>\<open>node\<close> attribute that \<^verbatim>\<open>helper.ltx.getElementAttr\<close>
  finds under \<^verbatim>\<open>event/items\<close>, and what \<^verbatim>\<open>sysap_internal.presence\<close> answers for it.
  Both functions live outside the two files; their answers are part of the input.
\<close>

record stanza =
  st_name :: string
  st_type :: "string option"
  st_from :: "string option"
  st_id :: "string option"
  st_node :: "string option"
  st_is_sysap :: bool

definition attr :: "string option \<Rightarrow> jsval" where
  "attr a = (case a of None \<Rightarrow> JUndefined | Some s \<Rightarrow> JStr s)"

text \<open>
  The calls the session makes, in order: to \<^verbatim>\<open>sysap_internal\<close> (\<^verbatim>\<open>update\<close>, \<^verbatim>\<open>status\<close>,
  \<^verbatim>\<open>response\<close>, \<^verbatim>\<open>presence\<close>, \<^verbatim>\<open>subscribed\<close>, \<^verbatim>\<open>all\<close>, \<^verbatim>\<open>subscribe\<close>), the ping it
  sends with its id, and the timer it arms for the next \<^verbatim>\<open>keepAlive\<close> with its delay in
  milliseconds. \<^verbatim>\<open>all\<close> is the request for the full state refresh.
\<close>

datatype call =
    CallUpdate | CallStatus | CallResponse | CallPresence | CallSubscribed | CallAll
  | CallSubscribe | SendPing jsnum | SetTimeoutKeepAlive jsnum

text \<open>
  The source of the stanza handler, without its logging:
  \<^verbatim>\<open>
  sysap.on('stanza', function(stanza) {
    if (stanza.getName() == 'message' &&
        stanza.attrs.type == 'headline' &&
        stanza.attrs.from == 'mrha@busch-jaeger.de' &&
        helper.ltx.getElementAttr(stanza, ['event', 'items'], 'node')
          == 'http://abb.com/protocol/update') {
      sysap_internal.update(stanza);
      sysap_internal.status();
    } else if (stanza.getName() == 'iq' &&
               stanza.attrs.type == 'result' &&
               stanza.attrs.from == 'mrha@busch-jaeger.de/rpc') {
      if (stanza.attrs.id == lastping) {
        // ping result
      } else {
        sysap_internal.response(stanza);
        sysap_internal.status();
      }
    } else if (stanza.getName() == 'presence') {
      var is_sysap = sysap_internal.presence(stanza);
      if (is_sysap && !subscribed) {
        sysap_internal.subscribed();
        sysap_internal.all();
        subscribed = true;
      }
    } else {
      // unknown stanza
    }
  });
  \<close>
\<close>

definition is_update :: "stanza \<Rightarrow> bool" where
  "is_update st =
     (st_name st = ''message''
      \<and> loose_eq (attr (st_type st)) (JStr ''headline'')
      \<and> loose_eq (attr (st_from st)) (JStr ''mrha@busch-jaeger.de'')
      \<and> loose_eq (attr (st_node st)) (JStr ''http://abb.com/protocol/update''))"

definition is_rpc_result :: "stanza \<Rightarrow> bool" where
  "is_rpc_result st =
     (st_name st = ''iq''
      \<and> loose_eq (attr (st_type st)) (JStr ''result'')
      \<and> loose_eq (attr (st_from st)) (JStr ''mrha@busch-jaeger.de/rpc''))"

definition on_stanza :: "session \<Rightarrow> stanza \<Rightarrow> session \<times> call list" where
  "on_stanza s st =
     (if is_update st then (s, [CallUpdate, CallStatus])
      else if is_rpc_result st then
        (if loose_eq (attr (st_id st)) (lastping s) then (s, [])
         else (s, [CallResponse, CallStatus]))
      else if st_name st = ''presence'' then
        (if st_is_sysap st \<and> \<not> subscribed s
         then (s\<lparr>subscribed := True\<rparr>, [CallPresence, CallSubscribed, CallAll])
         else (s, [CallPresence]))
      else (s, []))"

text \<open>
  \<^verbatim>\<open>
  function keepAlive () {
    count++;
    var ping = new xmpp_client.Element('iq', {
      type: 'get', to: 'mrha@busch-jaeger.de/rpc', id: count, xmlns: 'jabber:client'
    }).c('ping', { xmlns: 'urn:xmpp:ping' })
    lastping = count;
    sysap.send(ping);
    setTimeout(keepAlive, 10 * 1000);
  }
  sysap.on('online', function() {
    keepAlive();
    sysap_internal.subscribe();
  });
  \<close>
  \<^verbatim>\<open>count++\<close> adds one to a double.
\<close>

definition keepAlive :: "session \<Rightarrow> session \<times> call list" where
  "keepAlive s =
     (let c = jadd (count s) (Fin 1)
      in (s\<lparr>count := c, lastping := JNum c\<rparr>, [SendPing c, SetTimeoutKeepAlive (Fin (10 * 1000))]))"

definition on_online :: "session \<Rightarrow> session \<times> call list" where
  "on_online s = (let (s', cs) = keepAlive s in (s', cs @ [CallSubscribe]))"

text \<open>
  The callbacks run one at a time. An event is the transport coming online, an inbound
  stanza, or the \<^verbatim>\<open>keepAlive\<close> timer firing.
\<close>

datatype event = Online | Stanza stanza | KeepAliveFires

fun handle :: "session \<Rightarrow> event \<Rightarrow> session \<times> call list" where
  "handle s Online = on_online s"
| "handle s (Stanza st) = on_stanza s st"
| "handle s KeepAliveFires = keepAlive s"

fun run :: "session \<Rightarrow> event list \<Rightarrow> session \<times> call list" where
  "run s [] = (s, [])"
| "run s (e # es) =
     (let (s1, cs1) = handle s e; (s2, cs2) = run s1 es in (s2, cs1 @ cs2))"

section \<open>Notions used in the statements\<close>

text \<open>
  The datapoint a toggle reads: \<^verbatim>\<open>odp0006\<close> on the thermostat, and otherwise the target
  datapoint with its first character replaced by \<^verbatim>\<open>o\<close>.
\<close>

definition toggle_source :: "actuator \<Rightarrow> string option \<Rightarrow> string" where
  "toggle_source a datapoint =
     (if deviceId a = ''9004'' then ''odp0006''
      else ''o'' @ substr_from 1 (case datapoint of None \<Rightarrow> [] | Some dp \<Rightarrow> dp))"

text \<open>
  An event confirms the hub's presence when it is a presence stanza for which
  \<^verbatim>\<open>sysap_internal.presence\<close> answers yes.
\<close>

definition confirms :: "event \<Rightarrow> bool" where
  "confirms e =
     (case e of Stanza st \<Rightarrow> st_name st = ''presence'' \<and> st_is_sysap st | _ \<Rightarrow> False)"

text \<open>The number of requests for the full refresh among the calls made.\<close>

definition refreshes :: "call list \<Rightarrow> nat" where
  "refreshes cs = length (filter (\<lambda>c. c = CallAll) cs)"

text \<open>The number of times \<^verbatim>\<open>keepAlive\<close> runs in a sequence of events.\<close>

definition invocations :: "event list \<Rightarrow> nat" where
  "invocations evs = length (filter (\<lambda>e. e = Online \<or> e = KeepAliveFires) evs)"

text \<open>The ids of the pings sent, in order.\<close>

fun ping_ids :: "call list \<Rightarrow> jsnum list" where
  "ping_ids [] = []"
| "ping_ids (SendPing n # cs) = n # ping_ids cs"
| "ping_ids (c # cs) = ping_ids cs"

subsection \<open>Example stores and stanzas\<close>

definition shutter_store :: "jsval \<Rightarrow> jsval \<Rightarrow> store" where
  "shutter_store odp pm =
     [''ABB700C12345'' \<mapsto>
        \<lparr>deviceId = ''B001'', typeName = ''Jalousieaktor 4-fach, REG'', serialNumber = None,
         channels = [''ch0003'' \<mapsto> [''odp0000'' \<mapsto> odp, ''pm0006'' \<mapsto> pm]]\<rparr>]"

definition switch_store :: "jsval \<Rightarrow> store" where
  "switch_store odp =
     [''ABB2E0612345'' \<mapsto>
        \<lparr>deviceId = ''B002'', typeName = ''Schaltaktor 4-fach, 16A, REG'', serialNumber = None,
         channels = [''ch0000'' \<mapsto> [''idp0000'' \<mapsto> JNum (Fin 0), ''odp0000'' \<mapsto> odp]]\<rparr>]"

definition thermostat_store :: "jsval \<Rightarrow> jsval \<Rightarrow> store" where
  "thermostat_store onoff temperature =
     [''ABB700D12345'' \<mapsto>
        \<lparr>deviceId = ''9004'', typeName = ''Raumtemperaturregler'', serialNumber = None,
         channels = [''ch0000'' \<mapsto> [''odp0006'' \<mapsto> onoff, ''odp0002'' \<mapsto> temperature]]\<rparr>]"

definition scene_store :: store where
  "scene_store =
     [''FFFF48000001'' \<mapsto>
        \<lparr>deviceId = ''4800'', typeName = ''Neue Szene'', serialNumber = Some ''ABB700C12345'',
         channels = Map.empty\<rparr>]"

definition presence_stanza :: "bool \<Rightarrow> stanza" where
  "presence_stanza hub =
     \<lparr>st_name = ''presence'', st_type = None, st_from = Some ''mrha@busch-jaeger.de/rpc'',
      st_id = None, st_node = None, st_is_sysap = hub\<rparr>"

definition rpc_result :: "string \<Rightarrow> stanza" where
  "rpc_result i =
     \<lparr>st_name = ''iq'', st_type = Some ''result'', st_from = Some ''mrha@busch-jaeger.de/rpc'',
      st_id = Some i, st_node = None, st_is_sysap = False\<rparr>"

section \<open>Properties of the number model\<close>

lemma round_half_even_int: "round_half_even (of_int n) = n"
  by (simp add: round_half_even_def)

lemma pow2_powi: "pow2 k = 2 powi k"
  by (simp add: pow2_def power_int_def inverse_eq_divide power_one_over)

lemma pow2_pos: "0 < pow2 k"
  by (simp add: pow2_powi)

lemma pow2_add: "pow2 (i + j) = pow2 i * pow2 j"
  by (simp add: pow2_powi power_int_add)

lemma pow2_diff: "pow2 (i - j) = pow2 i / pow2 j"
  by (simp add: pow2_powi power_int_diff)

lemma pow2_mono: "i \<le> j \<Longrightarrow> pow2 i \<le> pow2 j"
  by (simp add: pow2_powi power_int_increasing)

lemma pow2_strict_mono: "i < j \<Longrightarrow> pow2 i < pow2 j"
  by (simp add: pow2_powi power_int_strict_increasing)

lemma bitlen_pow2:
  assumes "0 < p"
  shows "pow2 (bitlen p - 1) \<le> rat_of_int p" "rat_of_int p < pow2 (bitlen p)"
proof -
  from bitlen_bounds[OF assms] have lo: "2 ^ nat (bitlen p - 1) \<le> p" and hi: "p < 2 ^ nat (bitlen p)"
    by auto
  have b: "1 \<le> bitlen p" using assms by (auto simp: bitlen_alt_def)
  have "rat_of_int (2 ^ nat (bitlen p - 1)) \<le> rat_of_int p" using lo by (simp only: of_int_le_iff)
  then show "pow2 (bitlen p - 1) \<le> rat_of_int p" using b by (simp add: pow2_def)
  have "rat_of_int p < rat_of_int (2 ^ nat (bitlen p))" using hi by (simp only: of_int_less_iff)
  then show "rat_of_int p < pow2 (bitlen p)" using b by (simp add: pow2_def)
qed

text \<open>\<open>ilog2\<close> is the binary exponent.\<close>

lemma ilog2_bounds:
  assumes "0 < a"
  shows "pow2 (ilog2 a) \<le> a \<and> a < pow2 (ilog2 a + 1)"
proof -
  obtain p d where pd: "quotient_of a = (p, d)" by (cases "quotient_of a")
  have d: "0 < d" using quotient_of_denom_pos[OF pd] .
  have a: "a = rat_of_int p / rat_of_int d" using quotient_of_div[OF pd] .
  have p: "0 < p" using assms d by (simp add: a zero_less_divide_iff)
  define k where "k = bitlen p - bitlen d"
  note bp = bitlen_pow2[OF p] and bd = bitlen_pow2[OF d]
  have dpos: "0 < rat_of_int d" using d by simp
  have up: "a < pow2 (k + 1)"
  proof -
    have "rat_of_int p < pow2 (k + 1) * pow2 (bitlen d - 1)"
      using bp(2) by (simp add: k_def flip: pow2_add)
    also have "\<dots> \<le> pow2 (k + 1) * rat_of_int d"
      using bd(1) pow2_pos[of "k + 1"] by simp
    finally show ?thesis using dpos by (simp add: a pos_divide_less_eq)
  qed
  have low: "pow2 (k - 1) \<le> a"
  proof -
    have "pow2 (k - 1) * rat_of_int d \<le> pow2 (k - 1) * pow2 (bitlen d)"
      using bd(2) pow2_pos[of "k - 1"] by simp
    also have "\<dots> = pow2 (bitlen p - 1)" by (simp add: k_def flip: pow2_add)
    also have "\<dots> \<le> rat_of_int p" using bp(1) .
    finally show ?thesis using dpos by (simp add: a pos_le_divide_eq)
  qed
  show ?thesis
  proof (cases "pow2 k \<le> a")
    case True
    then have "ilog2 a = k" by (simp add: ilog2_def pd k_def)
    with True up show ?thesis by simp
  next
    case False
    then have "ilog2 a = k - 1" by (simp add: ilog2_def pd k_def)
    with False low show ?thesis by simp
  qed
qed

lemma ilog2_unique:
  assumes "0 < a" "pow2 e \<le> a" "a < pow2 (e + 1)"
  shows "ilog2 a = e"
proof -
  from ilog2_bounds[OF assms(1)] have b: "pow2 (ilog2 a) \<le> a" "a < pow2 (ilog2 a + 1)" by auto
  have "\<not> ilog2 a < e"
  proof
    assume "ilog2 a < e"
    then have "pow2 (ilog2 a + 1) \<le> pow2 e" by (intro pow2_mono) simp
    with b(2) assms(2) show False by simp
  qed
  moreover have "\<not> e < ilog2 a"
  proof
    assume "e < ilog2 a"
    then have "pow2 (e + 1) \<le> pow2 (ilog2 a)" by (intro pow2_mono) simp
    with b(1) assms(3) show False by simp
  qed
  ultimately show ?thesis by simp
qed

lemma round53_pos_dyadic:
  assumes m: "0 < m" "m \<le> 2 ^ 53" and k: "- 1074 \<le> k"
  defines "a \<equiv> rat_of_int m * pow2 k"
  defines "u \<equiv> pow2 (max (ilog2 a) (- 1022) - 52)"
  shows "rat_of_int (round_half_even (a / u)) * u = a"
proof -
  define b where "b = bitlen m"
  note bm = bitlen_pow2[OF m(1), folded b_def]
  have b1: "1 \<le> b" using m(1) by (auto simp: b_def bitlen_alt_def)
  have b54: "b \<le> 54"
  proof (rule ccontr)
    assume "\<not> b \<le> 54"
    then have "pow2 54 \<le> pow2 (b - 1)" by (intro pow2_mono) simp
    with bm(1) have "pow2 54 \<le> rat_of_int m" by simp
    moreover have "rat_of_int m \<le> rat_of_int (2 ^ 53)" using m(2) by (simp only: of_int_le_iff)
    ultimately show False by (simp add: pow2_def)
  qed
  have apos: "0 < a" using m(1) pow2_pos[of k] by (simp add: a_def)
  have e0: "ilog2 a = b - 1 + k"
  proof (rule ilog2_unique[OF apos])
    show "pow2 (b - 1 + k) \<le> a"
      using bm(1) pow2_pos[of k] by (simp add: a_def pow2_add)
    have "a < pow2 b * pow2 k"
      using bm(2) pow2_pos[of k] by (simp add: a_def)
    then show "a < pow2 (b - 1 + k + 1)" by (simp add: pow2_add)
  qed
  define e where "e = max (b - 1 + k) (- 1022)"
  have u: "u = pow2 (e - 52)" by (simp add: u_def e0 e_def)
  have q: "a / u = rat_of_int m * pow2 (k - e + 52)"
    by (simp add: a_def u pow2_diff pow2_add)
  have "\<exists>N. a / u = rat_of_int N"
  proof (cases "0 \<le> k - e + 52")
    case True
    then have "pow2 (k - e + 52) = rat_of_int (2 ^ nat (k - e + 52))" by (simp add: pow2_def)
    then have "a / u = rat_of_int (m * 2 ^ nat (k - e + 52))" by (simp add: q)
    then show ?thesis by blast
  next
    case False
    then have "e = b - 1 + k" using k by (auto simp: e_def max_def)
    with False b54 have b: "b = 54" and x: "k - e + 52 = - 1" by auto
    have "pow2 53 \<le> rat_of_int m" using bm(1) by (simp add: b)
    then have "rat_of_int (2 ^ 53) \<le> rat_of_int m" by (simp add: pow2_def)
    then have "2 ^ 53 \<le> m" by (simp only: of_int_le_iff)
    with m(2) have "m = 2 ^ 53" by simp
    then have "a / u = rat_of_int (2 ^ 52)" by (simp add: q x pow2_def)
    then show ?thesis by blast
  qed
  then obtain N where N: "a / u = rat_of_int N" by blast
  have upos: "0 < u" by (simp add: u pow2_pos)
  have "rat_of_int (round_half_even (a / u)) * u = a / u * u"
    by (simp only: N round_half_even_int)
  also have "\<dots> = a" using upos by simp
  finally show ?thesis .
qed

text \<open>
  A dyadic rational \<open>n * 2^k\<close> with \<open>\<bar>n\<bar> \<le> 2^53\<close> and \<open>- 1074 \<le> k \<le> 970\<close> is a double:
  rounding leaves it as it is.
\<close>

lemma round53_dyadic:
  assumes n: "\<bar>n\<bar> \<le> 2 ^ 53" and k: "- 1074 \<le> k" "k \<le> 970"
  shows "round53 (rat_of_int n * pow2 k) = Fin (rat_of_int n * pow2 k)"
proof (cases "n = 0")
  case True
  then show ?thesis by (simp add: round53_def)
next
  case False
  have m: "0 < \<bar>n\<bar>" using False by simp
  have pk: "0 < pow2 k" by (rule pow2_pos)
  have a: "\<bar>rat_of_int n * pow2 k\<bar> = rat_of_int \<bar>n\<bar> * pow2 k"
    using pk by (simp add: abs_mult)
  have small: "\<not> pow2 1024 \<le> rat_of_int \<bar>n\<bar> * pow2 k"
  proof -
    have "rat_of_int \<bar>n\<bar> \<le> rat_of_int (2 ^ 53)" using n by (simp only: of_int_le_iff)
    then have "rat_of_int \<bar>n\<bar> \<le> pow2 53" by (simp add: pow2_def)
    then have "rat_of_int \<bar>n\<bar> * pow2 k \<le> pow2 53 * pow2 k" using pk by simp
    also have "\<dots> = pow2 (53 + k)" by (simp add: pow2_add)
    also have "\<dots> < pow2 1024" using k(2) by (intro pow2_strict_mono) simp
    finally show ?thesis by simp
  qed
  note r = round53_pos_dyadic[OF m n k(1)]
  have nz: "rat_of_int n * pow2 k \<noteq> 0" using False pk by simp
  have sg: "rat_of_int n * pow2 k < 0 \<longleftrightarrow> n < 0"
    using pk by (simp add: mult_less_0_iff)
  have neg: "n < 0 \<Longrightarrow> - (rat_of_int \<bar>n\<bar> * pow2 k) = rat_of_int n * pow2 k" by simp
  have pos: "\<not> n < 0 \<Longrightarrow> rat_of_int \<bar>n\<bar> * pow2 k = rat_of_int n * pow2 k" by simp
  show ?thesis
    unfolding round53_def Let_def a r using nz small neg pos
    by (simp only: sg if_False if_True split: if_splits) auto
qed

text \<open>So are the integers up to \<open>2^53\<close> in magnitude, and their halves.\<close>

lemma round53_of_int: "\<bar>n\<bar> \<le> 2 ^ 53 \<Longrightarrow> round53 (rat_of_int n) = Fin (rat_of_int n)"
  using round53_dyadic[of n 0] by (simp add: pow2_def)

lemma round53_half: "\<bar>n\<bar> \<le> 2 ^ 53 \<Longrightarrow> round53 (rat_of_int n / 2) = Fin (rat_of_int n / 2)"
  using round53_dyadic[of n "- 1"] by (simp add: pow2_def)

lemma round53_250: "round53 250 = Fin 250"
  using round53_of_int[of 250] by simp

text \<open>
  Sums of halves of integers are exact: a half-integer temperature, plus or minus a
  half-integer step, minus 21.
\<close>

lemma half_arith:
  assumes "\<bar>t\<bar> \<le> 2 ^ 50" and "\<bar>k\<bar> \<le> 2 ^ 50" and "s = 1 \<or> s = - 1"
  shows "jsub (jadd (Fin (rat_of_int t / 2)) (jmul (Fin (rat_of_int k / 2)) (Fin (rat_of_int s))))
              (Fin 21)
         = Fin (rat_of_int t / 2 + rat_of_int s * (rat_of_int k / 2) - 21)"
proof -
  have b1: "\<bar>s * k\<bar> \<le> 2 ^ 53" using assms by (auto simp: abs_mult)
  have b2: "\<bar>t + s * k\<bar> \<le> 2 ^ 53" using assms by (auto simp: abs_mult)
  have b3: "\<bar>t + s * k - 42\<bar> \<le> 2 ^ 53" using assms by (auto simp: abs_mult)
  have 1: "jmul (Fin (rat_of_int k / 2)) (Fin (rat_of_int s)) = Fin (rat_of_int (s * k) / 2)"
    using round53_half[OF b1] by (simp add: mult.commute)
  have 2: "jadd (Fin (rat_of_int t / 2)) (Fin (rat_of_int (s * k) / 2))
             = Fin (rat_of_int (t + s * k) / 2)"
    using round53_half[OF b2] by (simp add: add_divide_distrib)
  have 3: "jsub (Fin (rat_of_int (t + s * k) / 2)) (Fin 21) = Fin (rat_of_int (t + s * k - 42) / 2)"
    using round53_half[OF b3] by (simp add: jsub_def diff_divide_distrib add_divide_distrib)
  show ?thesis
    unfolding 1 2 3 by (simp add: diff_divide_distrib add_divide_distrib)
qed

lemma parseFloat_str_half: "parseFloat_str ''0.5'' = Fin (1 / 2)"
  by code_simp

text \<open>\<^verbatim>\<open>parseInt\<close> of a Number that is a natural number below \<open>10^21\<close> is that number.\<close>

lemma parseInt_num_int:
  assumes "0 \<le> D" "D < 10 ^ 21"
  shows "parseInt_num (Fin (rat_of_int D)) = Fin (rat_of_int D)"
proof (cases "D = 0")
  case True
  then show ?thesis by simp
next
  case False
  then have "1 \<le> D" using assms by simp
  then have "(1::rat) \<le> rat_of_int D" by simp
  moreover have "min_decimal \<le> 1" by (simp add: min_decimal_def)
  ultimately have lo: "min_decimal \<le> \<bar>rat_of_int D\<bar>" by linarith
  have "rat_of_int D < rat_of_int (10 ^ 21)" using assms by (simp only: of_int_less_iff)
  then have hi: "\<bar>rat_of_int D\<bar> < 10 ^ 21" using assms by simp
  show ?thesis using False lo hi assms by (simp add: Let_def)
qed

lemma parseInt_50: "parseInt (JNum (Fin 50)) = Fin 50"
  using parseInt_num_int[of 50] by simp

lemma parseInt_str_50: "parseInt_str ''50'' = Fin 50"
  by code_simp

lemma ToNumber_str_x: "ToNumber_str ''x'' = NaN"
  by code_simp

lemma ToNumber_str_0: "ToNumber_str ''0'' = Fin 0"
  by code_simp

lemma ToNumber_str_1: "ToNumber_str ''1'' = Fin 1"
  by code_simp

lemma ToNumber_str_2: "ToNumber_str ''2'' = Fin 2"
  by code_simp

lemma num_eq_Fin: "num_eq n (Fin q) \<longleftrightarrow> n = Fin q"
  by (cases n) auto

text \<open>A value is loosely equal to a finite Number exactly when its numeric value is that Number.\<close>

lemma loose_eq_num: "loose_eq v (JNum (Fin q)) \<longleftrightarrow> ToNumber v = Fin q"
  by (cases v) (auto simp: num_eq_Fin)

lemma complement_other: "ToNumber v \<noteq> Fin 1 \<Longrightarrow> complement v = JNum (Fin 1)"
  by (simp add: complement_def loose_eq_num)

section \<open>Properties of the dispatcher\<close>

lemma read_shutter_store:
  "read_dp (shutter_store odp pm) (Some ''ABB700C12345'') ''ch0003'' ''odp0000'' = Inr odp"
  "read_dp (shutter_store odp pm) (Some ''ABB700C12345'') ''ch0003'' ''pm0006'' = Inr pm"
  by (simp_all add: read_dp_def shutter_store_def key_of_def dp_value_def)

text \<open>A Number is sent as it is.\<close>

lemma set'_literal: "set' d sn ch dp (JNum n) = Inr (send sn ch dp (JNum n))"
  by (simp add: set'_def ToNumber_str_x)

text \<open>
  C1, as amended. A movement toggle (\<^verbatim>\<open>x-0\<close> for up, \<^verbatim>\<open>x-1\<close> for down) on an existing
  channel reads the movement status \<^verbatim>\<open>odp0000\<close> (2: moving up, 3: moving down). When the
  shutter already moves in the requested direction (2 with up, 3 with down) the write is
  rewritten to a stop, datapoint \<^verbatim>\<open>idp0001\<close> with value 1. In every other case (no
  motion, motion in the opposite direction, no status) the requested datapoint is
  written with the direction value, \<^verbatim>\<open>0\<close> or \<^verbatim>\<open>1\<close>.
\<close>

theorem movement_toggle_stops_same_direction:
  assumes "read_dp d sn ch ''odp0000'' = Inr odp"
  shows "set' d sn ch dp (JStr ''x-0'') =
           Inr (if loose_eq odp (JNum (Fin 2)) then send sn ch (Some ''idp0001'') (JNum (Fin 1))
                else send sn ch dp (JStr ''0''))
      \<and> set' d sn ch dp (JStr ''x-1'') =
           Inr (if loose_eq odp (JNum (Fin 3)) then send sn ch (Some ''idp0001'') (JNum (Fin 1))
                else send sn ch dp (JStr ''1''))"
  using assms
  by (simp add: set'_def substr_to_def substr_from_def ToNumber_str_0 ToNumber_str_1)

text \<open>
  The amended C1 on a shutter that moves up (\<^verbatim>\<open>odp0000 = 2\<close>): the up toggle stops it,
  the down toggle sends the down command.
\<close>

theorem movement_toggle_stops_same_direction_witness:
  "read_dp (shutter_store (JNum (Fin 2)) (JNum (Fin 50))) (Some ''ABB700C12345'') ''ch0003''
     ''odp0000'' = Inr (JNum (Fin 2))
   \<and> set' (shutter_store (JNum (Fin 2)) (JNum (Fin 50))) (Some ''ABB700C12345'') ''ch0003''
       (Some ''idp0000'') (JStr ''x-0'')
       = Inr (send (Some ''ABB700C12345'') ''ch0003'' (Some ''idp0001'') (JNum (Fin 1)))
   \<and> set' (shutter_store (JNum (Fin 2)) (JNum (Fin 50))) (Some ''ABB700C12345'') ''ch0003''
       (Some ''idp0000'') (JStr ''x-1'')
       = Inr (send (Some ''ABB700C12345'') ''ch0003'' (Some ''idp0000'') (JStr ''1''))"
proof -
  have h: "read_dp (shutter_store (JNum (Fin 2)) (JNum (Fin 50))) (Some ''ABB700C12345'')
             ''ch0003'' ''odp0000'' = Inr (JNum (Fin 2))"
    by (rule read_shutter_store)
  show ?thesis
    using h movement_toggle_stops_same_direction[OF h, of "Some ''idp0000''"] by simp
qed

text \<open>
  C1 as stated fails: with \<^verbatim>\<open>odp0000 = 2\<close> (moving up) a down toggle does not emit the
  stop write, it emits the down command \<^verbatim>\<open>idp0000 = 1\<close>.
\<close>

theorem movement_toggle_stops_same_direction_counterexample:
  "read_dp (shutter_store (JNum (Fin 2)) (JNum (Fin 50))) (Some ''ABB700C12345'') ''ch0003''
     ''odp0000'' = Inr (JNum (Fin 2))
   \<and> set' (shutter_store (JNum (Fin 2)) (JNum (Fin 50))) (Some ''ABB700C12345'') ''ch0003''
       (Some ''idp0000'') (JStr ''x-1'')
       = Inr (send (Some ''ABB700C12345'') ''ch0003'' (Some ''idp0000'') (JStr ''1''))
   \<and> set' (shutter_store (JNum (Fin 2)) (JNum (Fin 50))) (Some ''ABB700C12345'') ''ch0003''
       (Some ''idp0000'') (JStr ''x-1'')
       \<noteq> Inr (send (Some ''ABB700C12345'') ''ch0003'' (Some ''idp0001'') (JNum (Fin 1)))"
  by (simp add: set'_def substr_to_def substr_from_def read_shutter_store ToNumber_str_1 send_def)

text \<open>
  C2, as amended. A pulse request (\<^verbatim>\<open>p-0\<close>, \<^verbatim>\<open>p-1\<close>) on an existing channel whose
  \<^verbatim>\<open>pm0006\<close> reads as the motor delay \<open>D\<close> sends the direction value to the requested
  datapoint at once, and arms exactly one timer, of \<open>200 + D\<close> milliseconds, whose call
  sends the stop write \<^verbatim>\<open>idp0001 = 1\<close> and nothing else.
\<close>

theorem pulse_sends_then_stops:
  assumes "read_dp d sn ch ''pm0006'' = Inr pm"
    and "parseInt pm = Fin (rat_of_int D)"
    and "\<bar>200 + D\<bar> \<le> 2 ^ 53"
  shows "set' d sn ch dp (JStr (''p-'' @ dir)) =
           Inr \<lparr>sent = [\<lparr>w_serial = sn, w_channel = ch, w_datapoint = dp, w_value = JStr dir\<rparr>],
                timers = [(Fin (rat_of_int (200 + D)),
                           SetCall sn ch (Some ''idp0001'') (JNum (Fin 1)))]\<rparr>
      \<and> (\<forall>d'. fire d' (SetCall sn ch (Some ''idp0001'') (JNum (Fin 1))) =
                 Inr \<lparr>sent = [\<lparr>w_serial = sn, w_channel = ch, w_datapoint = Some ''idp0001'',
                               w_value = JNum (Fin 1)\<rparr>],
                      timers = []\<rparr>)"
proof -
  have d: "jadd (Fin 200) (parseInt pm) = Fin (rat_of_int (200 + D))"
    using assms(2) round53_of_int[OF assms(3)] by simp
  have "set' d sn ch dp (JStr (''p-'' @ dir)) =
           Inr \<lparr>sent = [\<lparr>w_serial = sn, w_channel = ch, w_datapoint = dp, w_value = JStr dir\<rparr>],
                timers = [(jadd (Fin 200) (parseInt pm),
                           SetCall sn ch (Some ''idp0001'') (JNum (Fin 1)))]\<rparr>"
    using assms(1) by (simp add: set'_def substr_to_def substr_from_def send_def)
  moreover have "\<And>d'. fire d' (SetCall sn ch (Some ''idp0001'') (JNum (Fin 1))) =
                 Inr \<lparr>sent = [\<lparr>w_serial = sn, w_channel = ch, w_datapoint = Some ''idp0001'',
                               w_value = JNum (Fin 1)\<rparr>],
                      timers = []\<rparr>"
    by (simp add: set'_literal send_def)
  ultimately show ?thesis by (simp only: d) simp
qed

text \<open>The amended C2 with \<^verbatim>\<open>pm0006 = 50\<close>, held as the string the hub reports: the timer is of 250 ms.\<close>

theorem pulse_sends_then_stops_witness:
  "read_dp (shutter_store (JNum (Fin 0)) (JStr ''50'')) (Some ''ABB700C12345'') ''ch0003''
     ''pm0006'' = Inr (JStr ''50'')
   \<and> parseInt (JStr ''50'') = Fin (rat_of_int 50)
   \<and> \<bar>200 + 50\<bar> \<le> (2 :: int) ^ 53
   \<and> set' (shutter_store (JNum (Fin 0)) (JStr ''50'')) (Some ''ABB700C12345'') ''ch0003''
       (Some ''idp0000'') (JStr ''p-0'')
       = Inr \<lparr>sent = [\<lparr>w_serial = Some ''ABB700C12345'', w_channel = ''ch0003'',
                       w_datapoint = Some ''idp0000'', w_value = JStr ''0''\<rparr>],
              timers = [(Fin 250, SetCall (Some ''ABB700C12345'') ''ch0003'' (Some ''idp0001'')
                                    (JNum (Fin 1)))]\<rparr>
   \<and> fire (shutter_store (JNum (Fin 0)) (JStr ''50''))
        (SetCall (Some ''ABB700C12345'') ''ch0003'' (Some ''idp0001'') (JNum (Fin 1)))
       = Inr \<lparr>sent = [\<lparr>w_serial = Some ''ABB700C12345'', w_channel = ''ch0003'',
                       w_datapoint = Some ''idp0001'', w_value = JNum (Fin 1)\<rparr>],
              timers = []\<rparr>"
proof -
  have h1: "read_dp (shutter_store (JNum (Fin 0)) (JStr ''50'')) (Some ''ABB700C12345'')
              ''ch0003'' ''pm0006'' = Inr (JStr ''50'')"
    by (rule read_shutter_store)
  have h2: "parseInt (JStr ''50'') = Fin (rat_of_int 50)"
    by (simp add: parseInt_str_50)
  have h3: "\<bar>200 + 50\<bar> \<le> (2 :: int) ^ 53"
    by simp
  show ?thesis
    using h1 pulse_sends_then_stops[OF h1 h2 h3, of "Some ''idp0000''" "''0''"]
    by (simp add: parseInt_str_50)
qed

text \<open>
  C2 as stated fails: the pulse request does send a write immediately, the direction
  value on the requested datapoint, before the stop it schedules.
\<close>

theorem pulse_sends_then_stops_counterexample:
  "set' (shutter_store (JNum (Fin 0)) (JNum (Fin 50))) (Some ''ABB700C12345'') ''ch0003''
     (Some ''idp0000'') (JStr ''p-1'')
     = Inr \<lparr>sent = [\<lparr>w_serial = Some ''ABB700C12345'', w_channel = ''ch0003'',
                     w_datapoint = Some ''idp0000'', w_value = JStr ''1''\<rparr>],
            timers = [(Fin 250, SetCall (Some ''ABB700C12345'') ''ch0003'' (Some ''idp0001'')
                                  (JNum (Fin 1)))]\<rparr>"
  by (simp add: set'_def substr_to_def substr_from_def read_shutter_store send_def
                parseInt_50 round53_250 del: parseInt.simps)

text \<open>
  C3. A toggle request (\<^verbatim>\<open>x\<close>) on an existing channel writes the complement of an output
  datapoint: of \<^verbatim>\<open>odp0006\<close> when the actuator's \<^verbatim>\<open>deviceId\<close> is \<^verbatim>\<open>9004\<close>, and otherwise of
  the target datapoint with its first character (the \<^verbatim>\<open>i\<close> of an input datapoint)
  replaced by \<^verbatim>\<open>o\<close>. The complement of 1 is 0 and the complement of 0 is 1.
\<close>

theorem toggle_complements_output:
  assumes "d (key_of sn) = Some a" and "channels a ch = Some dps"
  shows "(deviceId a = ''9004'' \<longrightarrow>
            set' d sn ch dp (JStr ''x'') =
              Inr (send sn ch dp (complement (dp_value dps ''odp0006''))))
      \<and> (deviceId a \<noteq> ''9004'' \<longrightarrow>
            set' d sn ch (Some (c # rest)) (JStr ''x'') =
              Inr (send sn ch (Some (c # rest)) (complement (dp_value dps (CHR ''o'' # rest)))))
      \<and> complement (JNum (Fin 1)) = JNum (Fin 0)
      \<and> complement (JNum (Fin 0)) = JNum (Fin 1)"
  using assms
  by (simp add: set'_def read_dp_def substr_from_def complement_def)

text \<open>
  C3 on a switch whose \<^verbatim>\<open>odp0000\<close> is 1, then 0, and on a thermostat whose \<^verbatim>\<open>odp0006\<close>
  is 1: the values written are 0, 1 and 0.
\<close>

theorem toggle_complements_output_witness:
  "set' (switch_store (JNum (Fin 1))) (Some ''ABB2E0612345'') ''ch0000'' (Some ''idp0000'')
     (JStr ''x'')
     = Inr (send (Some ''ABB2E0612345'') ''ch0000'' (Some ''idp0000'') (JNum (Fin 0)))
   \<and> set' (switch_store (JNum (Fin 0))) (Some ''ABB2E0612345'') ''ch0000'' (Some ''idp0000'')
       (JStr ''x'')
       = Inr (send (Some ''ABB2E0612345'') ''ch0000'' (Some ''idp0000'') (JNum (Fin 1)))
   \<and> set' (thermostat_store (JNum (Fin 1)) (JNum (Fin (41 / 2)))) (Some ''ABB700D12345'')
       ''ch0000'' (Some ''idp000B'') (JStr ''x'')
       = Inr (send (Some ''ABB700D12345'') ''ch0000'' (Some ''idp000B'') (JNum (Fin 0)))"
proof -
  have s: "switch_store v (key_of (Some ''ABB2E0612345'')) =
             Some \<lparr>deviceId = ''B002'', typeName = ''Schaltaktor 4-fach, 16A, REG'',
                   serialNumber = None,
                   channels = [''ch0000'' \<mapsto> [''idp0000'' \<mapsto> JNum (Fin 0), ''odp0000'' \<mapsto> v]]\<rparr>"
    for v
    by (simp add: switch_store_def key_of_def)
  have t: "thermostat_store (JNum (Fin 1)) (JNum (Fin (41 / 2))) (key_of (Some ''ABB700D12345'')) =
             Some \<lparr>deviceId = ''9004'', typeName = ''Raumtemperaturregler'', serialNumber = None,
                   channels = [''ch0000'' \<mapsto> [''odp0006'' \<mapsto> JNum (Fin 1),
                                                ''odp0002'' \<mapsto> JNum (Fin (41 / 2))]]\<rparr>"
    by (simp add: thermostat_store_def key_of_def)
  have 1: "set' (switch_store (JNum (Fin 1))) (Some ''ABB2E0612345'') ''ch0000'' (Some ''idp0000'')
             (JStr ''x'')
           = Inr (send (Some ''ABB2E0612345'') ''ch0000'' (Some ''idp0000'') (JNum (Fin 0)))"
    using toggle_complements_output[where d = "switch_store (JNum (Fin 1))" and sn = "Some ''ABB2E0612345''"
                   and ch = "''ch0000''" and c = "CHR ''i''" and rest = "''dp0000''",
                 OF s[of "JNum (Fin 1)"]]
    by (simp add: dp_value_def)
  have 2: "set' (switch_store (JNum (Fin 0))) (Some ''ABB2E0612345'') ''ch0000'' (Some ''idp0000'')
             (JStr ''x'')
           = Inr (send (Some ''ABB2E0612345'') ''ch0000'' (Some ''idp0000'') (JNum (Fin 1)))"
    using toggle_complements_output[where d = "switch_store (JNum (Fin 0))" and sn = "Some ''ABB2E0612345''"
                   and ch = "''ch0000''" and c = "CHR ''i''" and rest = "''dp0000''",
                 OF s[of "JNum (Fin 0)"]]
    by (simp add: dp_value_def)
  have 3: "set' (thermostat_store (JNum (Fin 1)) (JNum (Fin (41 / 2)))) (Some ''ABB700D12345'')
             ''ch0000'' (Some ''idp000B'') (JStr ''x'')
           = Inr (send (Some ''ABB700D12345'') ''ch0000'' (Some ''idp000B'') (JNum (Fin 0)))"
    using toggle_complements_output[where d = "thermostat_store (JNum (Fin 1)) (JNum (Fin (41 / 2)))"
                   and sn = "Some ''ABB700D12345''" and ch = "''ch0000''"
                   and dp = "Some ''idp000B''",
                 OF t]
    by (simp add: dp_value_def)
  from 1 2 3 show ?thesis by blast
qed

text \<open>
  C4. A signed delta (\<^verbatim>\<open>+m\<close> or \<^verbatim>\<open>-m\<close>) on an existing channel writes the current
  \<^verbatim>\<open>odp0002\<close> plus the signed magnitude minus 21, in the arithmetic of doubles. Where
  the temperature \<open>t/2\<close> and the magnitude \<open>k/2\<close> are halves of integers (up to \<open>2^50\<close>) no
  rounding occurs, and the value written is the rational \<open>t/2 \<plusminus> k/2 - 21\<close>. With
  \<^verbatim>\<open>odp0002 = 20.5\<close> and the delta \<^verbatim>\<open>-0.5\<close> of the action \<^verbatim>\<open>down\<close> the value written is
  \<open>-1\<close>.
\<close>

theorem thermostat_delta_value:
  assumes "read_dp d sn ch ''odp0002'' = Inr odp"
    and "sg = CHR ''+'' \<or> sg = CHR ''-''"
  shows "set' d sn ch dp (JStr (sg # m)) =
           Inr (send sn ch dp
                  (JNum (jsub (jadd (parseFloat odp)
                                    (jmul (parseFloat_str m) (Fin (if sg = CHR ''-'' then - 1 else 1))))
                              (Fin 21))))
      \<and> (\<forall>t k. parseFloat odp = Fin (rat_of_int t / 2) \<and> \<bar>t\<bar> \<le> 2 ^ 50
                 \<and> parseFloat_str m = Fin (rat_of_int k / 2) \<and> \<bar>k\<bar> \<le> 2 ^ 50 \<longrightarrow>
            set' d sn ch dp (JStr (sg # m)) =
              Inr (send sn ch dp
                     (JNum (Fin (rat_of_int t / 2
                                 + (if sg = CHR ''-'' then - 1 else 1) * (rat_of_int k / 2) - 21)))))
      \<and> (parseFloat odp = Fin (41 / 2) \<longrightarrow>
            set' d sn ch dp (JStr ''-0.5'') = Inr (send sn ch dp (JNum (Fin (- 1)))))"
proof -
  have g: "set' d sn ch dp (JStr (sg # m)) =
           Inr (send sn ch dp
                  (JNum (jsub (jadd (parseFloat odp)
                                    (jmul (parseFloat_str m) (Fin (if sg = CHR ''-'' then - 1 else 1))))
                              (Fin 21))))"
    if "sg = CHR ''+'' \<or> sg = CHR ''-''" for sg m
    using assms(1) that by (auto simp: set'_def substr_to_def substr_from_def)
  have x: "set' d sn ch dp (JStr (sg # m)) =
              Inr (send sn ch dp
                     (JNum (Fin (rat_of_int t / 2
                                 + (if sg = CHR ''-'' then - 1 else 1) * (rat_of_int k / 2) - 21))))"
    if "sg = CHR ''+'' \<or> sg = CHR ''-''"
      and "parseFloat odp = Fin (rat_of_int t / 2)" and "\<bar>t\<bar> \<le> 2 ^ 50"
      and "parseFloat_str m = Fin (rat_of_int k / 2)" and "\<bar>k\<bar> \<le> 2 ^ 50"
    for sg m t k
  proof -
    define s :: int where "s = (if sg = CHR ''-'' then - 1 else 1)"
    have rs: "rat_of_int s = (if sg = CHR ''-'' then - 1 else 1)"
      by (simp add: s_def)
    have "s = 1 \<or> s = - 1"
      by (simp add: s_def)
    note h = half_arith[OF that(3) that(5) this, unfolded rs]
    show ?thesis
      by (simp only: g[OF that(1)] that(2) that(4) h)
  qed
  have "set' d sn ch dp (JStr ''-0.5'') = Inr (send sn ch dp (JNum (Fin (- 1))))"
    if "parseFloat odp = Fin (41 / 2)"
    using x[of "CHR ''-''" 41 "''0.5''" 1] that by (simp add: parseFloat_str_half)
  with g[OF assms(2)] x[OF assms(2)] show ?thesis by blast
qed

text \<open>C4 on a thermostat whose \<^verbatim>\<open>odp0002\<close> is 20.5, with the delta of \<^verbatim>\<open>down\<close>.\<close>

theorem thermostat_delta_value_witness:
  "read_dp (thermostat_store (JNum (Fin 1)) (JNum (Fin (41 / 2)))) (Some ''ABB700D12345'')
     ''ch0000'' ''odp0002'' = Inr (JNum (Fin (41 / 2)))
   \<and> (CHR ''-'' = CHR ''+'' \<or> CHR ''-'' = CHR ''-'')
   \<and> parseFloat (JNum (Fin (41 / 2))) = Fin (rat_of_int 41 / 2)
   \<and> parseFloat_str ''0.5'' = Fin (rat_of_int 1 / 2)
   \<and> set' (thermostat_store (JNum (Fin 1)) (JNum (Fin (41 / 2)))) (Some ''ABB700D12345'')
       ''ch0000'' (Some ''idp0007'') (JStr ''-0.5'')
       = Inr (send (Some ''ABB700D12345'') ''ch0000'' (Some ''idp0007'') (JNum (Fin (- 1))))"
proof -
  have h: "read_dp (thermostat_store (JNum (Fin 1)) (JNum (Fin (41 / 2)))) (Some ''ABB700D12345'')
             ''ch0000'' ''odp0002'' = Inr (JNum (Fin (41 / 2)))"
    by (simp add: read_dp_def thermostat_store_def key_of_def dp_value_def)
  have s: "CHR ''-'' = CHR ''+'' \<or> CHR ''-'' = CHR ''-''"
    by simp
  have r: "set' (thermostat_store (JNum (Fin 1)) (JNum (Fin (41 / 2)))) (Some ''ABB700D12345'')
             ''ch0000'' (Some ''idp0007'') (JStr ''-0.5'')
           = Inr (send (Some ''ABB700D12345'') ''ch0000'' (Some ''idp0007'') (JNum (Fin (- 1))))"
    using conjunct2[OF thermostat_delta_value[OF h s, of "Some ''idp0007''" "''0.5''"]] by simp
  show ?thesis
    using h r by (simp add: parseFloat_str_half)
qed

section \<open>Properties of \<^verbatim>\<open>parse\<close>\<close>

lemma js_get_hd: "js_get ((k, v) # r) k = Own v"
  by (simp add: js_get_def js_member_def)

lemma get_scene:
  "js_get (commands value) ''scene'' =
     Own \<lparr>actions = [(''set'', (''odp0000'', lit 1))], deviceIds = None\<rparr>"
  by (simp add: js_get_def js_member_def commands_def)

lemma get_constructor: "js_get (commands value) ''constructor'' = Inherited"
  by (simp add: js_get_def js_member_def commands_def object_prototype_keys_def)

text \<open>
  For a type, an action and a serial number that name no member of \<^verbatim>\<open>Object.prototype\<close>
  the checks run in
  the order of the source, the first failure is the reply, and nothing is sent on a
  failure: unknown type, unknown action, unknown serial number, and the hardware code
  where the entry lists codes.
\<close>

lemma validation_order:
  assumes "type \<notin> set object_prototype_keys" and "action \<notin> set object_prototype_keys"
    and "sn \<notin> set object_prototype_keys" and "type \<noteq> ''blind''"
  shows "parse actuators type sn ch action value =
     (case map_of (commands value) type of
        None \<Rightarrow> Inr (Refused (unknown_command type), no_effects)
      | Some cmd \<Rightarrow>
          (case map_of (actions cmd) action of
             None \<Rightarrow> Inr (Refused (unknown_action action type), no_effects)
           | Some (dp, spec) \<Rightarrow>
               (case actuators sn of
                  None \<Rightarrow> Inr (Refused (not_found sn), no_effects)
                | Some a \<Rightarrow>
                    if (\<exists>ids. deviceIds cmd = Some ids \<and> deviceId a \<notin> set ids)
                    then Inr (Refused (not_of_type sn (typeName a) type), no_effects)
                    else
                      (case set' actuators (if type = ''scene'' then serialNumber a else Some sn)
                              ch (Some dp) spec of
                         Inl e \<Rightarrow> Inl e
                       | Inr eff \<Rightarrow>
                           Inr (Performed
                                  (confirmation ch type
                                     (if type = ''scene'' then serialNumber a else Some sn)
                                     (typeName a) action (Some dp))
                                  spec,
                                eff)))))"
  using assms
  by (auto simp: parse_def js_get_def js_member_def Let_def split: option.splits)

lemma get_toString: "js_get [(''set'', v)] ''toString'' = Inherited"
  by (simp add: js_get_def js_member_def object_prototype_keys_def)

text \<open>
  C5. The code departs from the claim on a type that names a member every object
  inherits from \<^verbatim>\<open>Object.prototype\<close>, here \<^verbatim>\<open>constructor\<close>: \<^verbatim>\<open>commands[type]\<close> is then
  not \<^verbatim>\<open>undefined\<close>, the test for an unknown type passes, and reading an action of its
  absent \<^verbatim>\<open>actions\<close> throws a \<^verbatim>\<open>TypeError\<close>. No error message is returned, whatever the
  store, the serial number, the channel, the action and the value.
\<close>

theorem inherited_type_throws:
  "parse actuators ''constructor'' sn ch action value = Inl TypeError"
  by (simp add: parse_def get_constructor)

text \<open>
  C6. A request of type \<^verbatim>\<open>blind\<close> has the outcome of the same request of type
  \<^verbatim>\<open>shutter\<close>: the same reply, the same writes and timers, or the same exception.
\<close>

theorem blind_is_shutter:
  "parse actuators ''blind'' sn ch action value = parse actuators ''shutter'' sn ch action value"
  by (simp add: parse_def)

text \<open>
  For a scene of the store and the action \<^verbatim>\<open>set\<close>, the only action the table has for the
  type \<^verbatim>\<open>scene\<close>, the request succeeds and sends exactly one write: to the serial number
  held in the scene's \<^verbatim>\<open>serialNumber\<close> back-reference, not to the identifier the caller
  gave, of datapoint \<^verbatim>\<open>odp0000\<close> with value 1.
\<close>

lemma scene_set_targets_back_reference:
  assumes "actuators sn = Some a"
  shows "parse actuators ''scene'' sn ch ''set'' value =
           Inr (Performed (confirmation ch ''scene'' (serialNumber a) (typeName a) ''set''
                             (Some ''odp0000''))
                          (JNum (Fin 1)),
                \<lparr>sent = [\<lparr>w_serial = serialNumber a, w_channel = ch,
                           w_datapoint = Some ''odp0000'', w_value = JNum (Fin 1)\<rparr>],
                 timers = []\<rparr>)"
  using assms
  by (simp add: parse_def get_scene js_get_hd js_member_def lit_def set'_literal send_def Let_def)

text \<open>
  A serial number that names a member of \<^verbatim>\<open>Object.prototype\<close> and is no key of the store
  passes the test for an unknown actuator. For the type \<^verbatim>\<open>scene\<close>, which lists no hardware
  codes, the request is performed: the write goes to the serial number \<^verbatim>\<open>undefined\<close>.
\<close>

lemma inherited_serial_performed:
  assumes "actuators ''constructor'' = None"
  shows "parse actuators ''scene'' ''constructor'' ch ''set'' value =
           Inr (Performed (confirmation ch ''scene'' None ''undefined'' ''set'' (Some ''odp0000''))
                          (JNum (Fin 1)),
                \<lparr>sent = [\<lparr>w_serial = None, w_channel = ch,
                           w_datapoint = Some ''odp0000'', w_value = JNum (Fin 1)\<rparr>],
                 timers = []\<rparr>)"
  using assms
  by (simp add: parse_def get_scene js_get_hd js_member_def object_prototype_keys_def lit_def
                set'_literal send_def Let_def)

text \<open>
  C7. The code departs from the claim on a scene request whose action names a member
  every object inherits from \<^verbatim>\<open>Object.prototype\<close>, here \<^verbatim>\<open>toString\<close>:
  \<^verbatim>\<open>commands[type].actions[action]\<close> is then not \<^verbatim>\<open>undefined\<close>, the test for an unknown
  action passes, and the request is performed. Its one write goes to the serial number
  of the scene's back-reference, but its datapoint is \<^verbatim>\<open>undefined\<close> and its value is
  \<^verbatim>\<open>undefined\<close>, where the claim has \<^verbatim>\<open>odp0000\<close> and 1.
\<close>

theorem scene_inherited_action_writes_undefined:
  "parse scene_store ''scene'' ''FFFF48000001'' ''ch0000'' ''toString'' value =
     Inr (Performed (confirmation ''ch0000'' ''scene'' (Some ''ABB700C12345'') ''Neue Szene''
                       ''toString'' None)
                    JUndefined,
          \<lparr>sent = [\<lparr>w_serial = Some ''ABB700C12345'', w_channel = ''ch0000'',
                     w_datapoint = None, w_value = JUndefined\<rparr>],
           timers = []\<rparr>)"
  by (simp add: parse_def get_scene get_toString js_member_def scene_store_def set'_def send_def
                Let_def)

text \<open>
  C10. A toggle on an existing channel, of the thermostat or with a datapoint given,
  does not fail on the value it reads: it writes the complement of the output datapoint
  \<open>toggle_source\<close> names, and that is 1 when the datapoint is absent from the channel and
  when it holds a value whose numeric value is not 1.
\<close>

theorem toggle_is_total:
  assumes "d (key_of sn) = Some a" and "channels a ch = Some dps"
    and "deviceId a = ''9004'' \<or> dp \<noteq> None"
  shows "set' d sn ch dp (JStr ''x'') =
           Inr (send sn ch dp (complement (dp_value dps (toggle_source a dp))))
      \<and> (dps (toggle_source a dp) = None \<longrightarrow>
            complement (dp_value dps (toggle_source a dp)) = JNum (Fin 1))
      \<and> (ToNumber (dp_value dps (toggle_source a dp)) \<noteq> Fin 1 \<longrightarrow>
            complement (dp_value dps (toggle_source a dp)) = JNum (Fin 1))"
proof -
  have "set' d sn ch dp (JStr ''x'') =
           Inr (send sn ch dp (complement (dp_value dps (toggle_source a dp))))"
    using assms by (auto simp: set'_def read_dp_def toggle_source_def)
  moreover have "complement (dp_value dps (toggle_source a dp)) = JNum (Fin 1)"
    if "dps (toggle_source a dp) = None"
    using that by (simp add: dp_value_def complement_def)
  ultimately show ?thesis using complement_other by blast
qed

text \<open>
  C10 on a switch channel that holds \<^verbatim>\<open>odp0000 = '0'\<close> and no \<^verbatim>\<open>odp0005\<close>: toggling
  \<^verbatim>\<open>idp0005\<close> and toggling \<^verbatim>\<open>idp0000\<close> both write 1.
\<close>

theorem toggle_is_total_witness:
  "set' (switch_store (JStr ''0'')) (Some ''ABB2E0612345'') ''ch0000'' (Some ''idp0005'')
     (JStr ''x'')
     = Inr (send (Some ''ABB2E0612345'') ''ch0000'' (Some ''idp0005'') (JNum (Fin 1)))
   \<and> set' (switch_store (JStr ''0'')) (Some ''ABB2E0612345'') ''ch0000'' (Some ''idp0000'')
       (JStr ''x'')
       = Inr (send (Some ''ABB2E0612345'') ''ch0000'' (Some ''idp0000'') (JNum (Fin 1)))"
proof -
  let ?a = "\<lparr>deviceId = ''B002'', typeName = ''Schaltaktor 4-fach, 16A, REG'',
             serialNumber = None,
             channels = [''ch0000'' \<mapsto> [''idp0000'' \<mapsto> JNum (Fin 0), ''odp0000'' \<mapsto> JStr ''0'']]\<rparr>"
  let ?dps = "[''idp0000'' \<mapsto> JNum (Fin 0), ''odp0000'' \<mapsto> JStr ''0'']"
  have s: "switch_store (JStr ''0'') (key_of (Some ''ABB2E0612345'')) = Some ?a"
    by (simp add: switch_store_def key_of_def)
  have c: "channels ?a ''ch0000'' = Some ?dps"
    by simp
  have 1: "set' (switch_store (JStr ''0'')) (Some ''ABB2E0612345'') ''ch0000'' (Some ''idp0005'')
             (JStr ''x'')
           = Inr (send (Some ''ABB2E0612345'') ''ch0000'' (Some ''idp0005'') (JNum (Fin 1)))"
    using toggle_is_total[where d = "switch_store (JStr ''0'')" and sn = "Some ''ABB2E0612345''"
                         and dp = "Some ''idp0005''", OF s c]
    by (simp add: toggle_source_def substr_from_def)
  have 2: "set' (switch_store (JStr ''0'')) (Some ''ABB2E0612345'') ''ch0000'' (Some ''idp0000'')
             (JStr ''x'')
           = Inr (send (Some ''ABB2E0612345'') ''ch0000'' (Some ''idp0000'') (JNum (Fin 1)))"
    using toggle_is_total[where d = "switch_store (JStr ''0'')" and sn = "Some ''ABB2E0612345''"
                         and dp = "Some ''idp0000''", OF s c]
    by (simp add: toggle_source_def substr_from_def dp_value_def ToNumber_str_0)
  from 1 2 show ?thesis by blast
qed

section \<open>Properties of the session\<close>

lemma presence_not_other:
  "st_name st = ''presence'' \<Longrightarrow> \<not> is_update st \<and> \<not> is_rpc_result st"
  by (simp add: is_update_def is_rpc_result_def)

lemma handle_subscribed: "subscribed (fst (handle s e)) = (subscribed s \<or> confirms e)"
  by (cases e)
     (auto simp: confirms_def on_stanza_def on_online_def keepAlive_def Let_def presence_not_other)

lemma handle_refreshes:
  "refreshes (snd (handle s e)) = (if \<not> subscribed s \<and> confirms e then 1 else 0)"
  by (cases e)
     (auto simp: confirms_def on_stanza_def on_online_def keepAlive_def Let_def refreshes_def
                 presence_not_other)

lemma refreshes_append: "refreshes (xs @ ys) = refreshes xs + refreshes ys"
  by (simp add: refreshes_def)

lemma run_subscribed:
  "subscribed (fst (run s evs)) = (subscribed s \<or> list_ex confirms evs)"
proof (induction evs arbitrary: s)
  case Nil
  then show ?case by simp
next
  case (Cons e evs)
  show ?case
    using Cons.IH[of "fst (handle s e)"] handle_subscribed[of s e]
    by (auto simp: split_beta Let_def)
qed

lemma run_refreshes:
  "refreshes (snd (run s evs)) = (if \<not> subscribed s \<and> list_ex confirms evs then 1 else 0)"
proof (induction evs arbitrary: s)
  case Nil
  then show ?case by (simp add: refreshes_def)
next
  case (Cons e evs)
  show ?case
    using Cons.IH[of "fst (handle s e)"] handle_subscribed[of s e] handle_refreshes[of s e]
    by (auto simp: split_beta Let_def refreshes_append)
qed

text \<open>
  C8. Over every sequence of events from the start of the process, the full refresh is
  requested once if some presence stanza confirms the hub, and never otherwise; it is
  requested while handling the first such stanza, and not before it.
\<close>

theorem refresh_requested_once:
  "refreshes (snd (run initial evs)) = (if list_ex confirms evs then 1 else 0)
   \<and> (\<forall>pre e post. evs = pre @ e # post \<and> confirms e \<and> \<not> list_ex confirms pre \<longrightarrow>
         refreshes (snd (run initial pre)) = 0
         \<and> refreshes (snd (handle (fst (run initial pre)) e)) = 1)"
proof -
  have i: "\<not> subscribed initial" by (simp add: initial_def)
  show ?thesis
    using i by (auto simp: run_refreshes handle_refreshes run_subscribed)
qed

text \<open>
  C8 on a presence stanza of another client followed by two of the hub: one refresh,
  requested at the second stanza.
\<close>

theorem refresh_requested_once_witness:
  "refreshes (snd (run initial [Stanza (presence_stanza False), Stanza (presence_stanza True),
                                Stanza (presence_stanza True)])) = 1
   \<and> confirms (Stanza (presence_stanza True))
   \<and> \<not> list_ex confirms [Stanza (presence_stanza False)]
   \<and> refreshes (snd (run initial [Stanza (presence_stanza False)])) = 0
   \<and> refreshes (snd (handle (fst (run initial [Stanza (presence_stanza False)]))
                        (Stanza (presence_stanza True)))) = 1"
proof -
  have c: "confirms (Stanza (presence_stanza True))"
    by (simp add: confirms_def presence_stanza_def)
  have n: "\<not> list_ex confirms [Stanza (presence_stanza False)]"
    by (simp add: confirms_def presence_stanza_def)
  note r = refresh_requested_once[of "[Stanza (presence_stanza False), Stanza (presence_stanza True),
                             Stanza (presence_stanza True)]"]
  have 1: "refreshes (snd (run initial [Stanza (presence_stanza False), Stanza (presence_stanza True),
                                Stanza (presence_stanza True)])) = 1"
    using conjunct1[OF r] c by simp
  have 2: "refreshes (snd (run initial [Stanza (presence_stanza False)])) = 0
         \<and> refreshes (snd (handle (fst (run initial [Stanza (presence_stanza False)]))
                        (Stanza (presence_stanza True)))) = 1"
    using conjunct2[OF r, rule_format, of "[Stanza (presence_stanza False)]"
                      "Stanza (presence_stanza True)" "[Stanza (presence_stanza True)]"] c n
    by simp
  from 1 2 c n show ?thesis by blast
qed

lemma ping_ids_append: "ping_ids (xs @ ys) = ping_ids xs @ ping_ids ys"
  by (induction xs rule: ping_ids.induct) auto

lemma invocations_Cons: "invocations (e # evs) = invocations [e] + invocations evs"
  by (simp add: invocations_def)

lemma incr: "int c + 1 \<le> 2 ^ 53 \<Longrightarrow> jadd (Fin (of_nat c)) (Fin 1) = Fin (of_nat (Suc c))"
  using round53_of_int[of "int c + 1"] by (simp add: add.commute)

lemma handle_count:
  assumes "count s = Fin (of_nat c)" "int c + int (invocations [e]) \<le> 2 ^ 53"
  shows "count (fst (handle s e)) = Fin (of_nat (c + invocations [e]))
       \<and> ping_ids (snd (handle s e)) = map (\<lambda>i. Fin (of_nat i)) [Suc c ..< Suc (c + invocations [e])]
       \<and> lastping (fst (handle s e)) =
           (if invocations [e] = 0 then lastping s else JNum (Fin (of_nat (c + invocations [e]))))"
proof (cases e)
  case (Stanza st)
  then show ?thesis using assms(1) by (auto simp: invocations_def on_stanza_def)
next
  case Online
  then have "int c + 1 \<le> 2 ^ 53" using assms(2) by (simp add: invocations_def)
  from incr[OF this] Online assms(1) show ?thesis
    by (simp add: invocations_def on_online_def keepAlive_def Let_def)
next
  case KeepAliveFires
  then have "int c + 1 \<le> 2 ^ 53" using assms(2) by (simp add: invocations_def)
  from incr[OF this] KeepAliveFires assms(1) show ?thesis
    by (simp add: invocations_def keepAlive_def Let_def)
qed

lemma upt_split:
  "[Suc c ..< Suc (c + (a + b))] = [Suc c ..< Suc (c + a)] @ [Suc (c + a) ..< Suc (c + a + b)]"
  by (metis add_Suc add.assoc le_add1 upt_add_eq_append)

text \<open>
  From a state whose counter is the natural number \<open>c\<close>, the pings carry the ids
  \<open>c + 1, c + 2, ...\<close>, as long as the counter stays within the integers a double holds.
\<close>

lemma run_count:
  assumes "count s = Fin (of_nat c)" "int c + int (invocations evs) \<le> 2 ^ 53"
  shows "count (fst (run s evs)) = Fin (of_nat (c + invocations evs))
       \<and> ping_ids (snd (run s evs)) = map (\<lambda>i. Fin (of_nat i)) [Suc c ..< Suc (c + invocations evs)]
       \<and> lastping (fst (run s evs)) =
           (if invocations evs = 0 then lastping s else JNum (Fin (of_nat (c + invocations evs))))"
  using assms
proof (induction evs arbitrary: s c)
  case Nil
  then show ?case by (simp add: invocations_def)
next
  case (Cons e evs)
  let ?k = "invocations [e]"
  have b1: "int c + int ?k \<le> 2 ^ 53"
    using Cons.prems(2) by (simp add: invocations_Cons[of e evs])
  note h = handle_count[OF Cons.prems(1) b1]
  have b2: "int (c + ?k) + int (invocations evs) \<le> 2 ^ 53"
    using Cons.prems(2) by (simp add: invocations_Cons[of e evs])
  note ih = Cons.IH[of "fst (handle s e)" "c + ?k", OF conjunct1[OF h] b2]
  let ?f = "\<lambda>i. Fin (rat_of_nat i)"
  have n: "c + invocations (e # evs) = c + ?k + invocations evs"
    by (simp add: invocations_Cons[of e evs])
  have r: "run s (e # evs) =
             (fst (run (fst (handle s e)) evs),
              snd (handle s e) @ snd (run (fst (handle s e)) evs))"
    by (simp add: split_beta)
  have 1: "count (fst (run s (e # evs))) = Fin (of_nat (c + invocations (e # evs)))"
    using ih by (simp only: r n fst_conv)
  have u: "[Suc c ..< Suc (c + invocations (e # evs))] =
             [Suc c ..< Suc (c + ?k)] @ [Suc (c + ?k) ..< Suc (c + ?k + invocations evs)]"
    by (simp only: invocations_Cons[of e evs] upt_split)
  have 2: "ping_ids (snd (run s (e # evs))) = map ?f [Suc c ..< Suc (c + invocations (e # evs))]"
    using h ih by (simp only: r snd_conv ping_ids_append u map_append)
  have 3: "lastping (fst (run s (e # evs))) =
             (if invocations (e # evs) = 0 then lastping s
              else JNum (Fin (of_nat (c + invocations (e # evs)))))"
  proof -
    have l: "lastping (fst (run s (e # evs))) = lastping (fst (run (fst (handle s e)) evs))"
      by (simp only: r fst_conv)
    have il: "lastping (fst (run (fst (handle s e)) evs)) =
                (if invocations evs = 0 then lastping (fst (handle s e))
                 else JNum (Fin (of_nat (c + ?k + invocations evs))))"
      using ih by blast
    have hl: "lastping (fst (handle s e)) =
                (if ?k = 0 then lastping s else JNum (Fin (of_nat (c + ?k))))"
      using h by blast
    show ?thesis
      unfolding l il hl by (simp add: invocations_Cons[of e evs] add.assoc)
  qed
  from 1 2 3 show ?case by blast
qed

text \<open>
  C9. Each run of \<^verbatim>\<open>keepAlive\<close> sends one ping and arms the timer of its next run, 10
  seconds later. From the start of the process the pings carry the ids 1, 2, 3, ... in
  order, one per run, and \<^verbatim>\<open>lastping\<close> is the id of the last one; the counter is a
  double, exact up to \<open>2^53\<close> runs. A result stanza from the RPC endpoint whose id is
  loosely equal to \<^verbatim>\<open>lastping\<close> changes nothing and causes no call: neither
  \<^verbatim>\<open>response\<close> nor \<^verbatim>\<open>status\<close>.
\<close>

theorem keepalive_ids_and_ack:
  assumes "int (invocations evs) \<le> 2 ^ 53"
  shows "ping_ids (snd (run initial evs)) = map (\<lambda>i. Fin (of_nat i)) [1 ..< Suc (invocations evs)]
     \<and> (0 < invocations evs \<longrightarrow>
          lastping (fst (run initial evs)) = JNum (Fin (of_nat (invocations evs))))
     \<and> (\<forall>s. snd (keepAlive s) = [SendPing (jadd (count s) (Fin 1)), SetTimeoutKeepAlive (Fin 10000)])
     \<and> (\<forall>s st. is_rpc_result st \<and> loose_eq (attr (st_id st)) (lastping s) \<longrightarrow>
          on_stanza s st = (s, []))"
proof -
  have c: "count initial = Fin (of_nat 0)" by (simp add: initial_def)
  have b: "int 0 + int (invocations evs) \<le> 2 ^ 53" using assms by simp
  have "\<And>s st. is_rpc_result st \<Longrightarrow> \<not> is_update st"
    by (simp add: is_rpc_result_def is_update_def)
  then show ?thesis
    using run_count[OF c b] by (auto simp: keepAlive_def Let_def on_stanza_def)
qed

text \<open>
  C9 on the transport coming online, a result stanza, and the timer firing: the pings
  carry the ids 1 and 2, and the result stanza with the id \<^verbatim>\<open>2\<close> that follows is
  consumed without a call.
\<close>

theorem keepalive_ids_and_ack_witness:
  "int (invocations [Online, Stanza (rpc_result ''1''), KeepAliveFires]) \<le> 2 ^ 53
   \<and> ping_ids (snd (run initial [Online, Stanza (rpc_result ''1''), KeepAliveFires]))
       = [Fin 1, Fin 2]
   \<and> lastping (fst (run initial [Online, Stanza (rpc_result ''1''), KeepAliveFires]))
       = JNum (Fin 2)
   \<and> is_rpc_result (rpc_result ''2'')
   \<and> on_stanza (fst (run initial [Online, Stanza (rpc_result ''1''), KeepAliveFires]))
        (rpc_result ''2'')
       = (fst (run initial [Online, Stanza (rpc_result ''1''), KeepAliveFires]), [])"
proof -
  let ?evs = "[Online, Stanza (rpc_result ''1''), KeepAliveFires]"
  have i: "invocations ?evs = 2"
    by (simp add: invocations_def)
  have h: "int (invocations ?evs) \<le> 2 ^ 53"
    by (simp add: i)
  note k = keepalive_ids_and_ack[OF h]
  have p: "ping_ids (snd (run initial ?evs)) = [Fin 1, Fin 2]"
    using conjunct1[OF k] by (simp add: i upt_rec)
  have l: "lastping (fst (run initial ?evs)) = JNum (Fin 2)"
    using conjunct1[OF conjunct2[OF k]] by (simp add: i)
  have r: "is_rpc_result (rpc_result ''2'')"
    by (simp add: is_rpc_result_def rpc_result_def attr_def)
  have e: "loose_eq (attr (st_id (rpc_result ''2''))) (lastping (fst (run initial ?evs)))"
    unfolding l by (simp add: rpc_result_def attr_def ToNumber_str_2)
  have a: "on_stanza (fst (run initial ?evs)) (rpc_result ''2'') = (fst (run initial ?evs), [])"
    using conjunct2[OF conjunct2[OF conjunct2[OF k]], rule_format,
                    of "rpc_result ''2''" "fst (run initial ?evs)"] r e
    by blast
  from h p l r a show ?thesis by blast
qed

end
